theory Spec2Isabelle
  imports Complex_Main "HOL-Library.Sublist"
begin

section \<open>Data model\<close>

text \<open>
  The members of \<^verbatim>\<open>Intent\<close> are the five keys of the tables \<^verbatim>\<open>RETRIEVAL_COUNTS\<close> and
  \<^verbatim>\<open>DOCUMENT_TYPE_PRIORITIES\<close> of \<^verbatim>\<open>DocumentRetriever\<close>.
\<close>

datatype Intent =
    ANSWER_GENERATION
  | ANSWER_EVALUATION
  | DOUBT_CLARIFICATION
  | QUESTION_GENERATION
  | EXAM_PAPER_GENERATION

text \<open>
  The metadata dictionary of a search result. Each field is an optional entry: \<open>None\<close> is an
  absent key, which is what \<^verbatim>\<open>metadata.get(key)\<close> returns for it. A result without a
  \<^verbatim>\<open>"metadata"\<close> entry reads as the empty dictionary, that is, every field \<open>None\<close>.
  A Python float is modelled by the real number that Python prints for it, which keeps
  equality and order between floats. Arithmetic on floats rounds; it is not the arithmetic
  of the real numbers, and the operations are taken as they are on the machine.
\<close>

record Metadata =
  m_user_id :: "int option"
  m_visibility :: "string option"
  m_document_type :: "string option"
  m_document_id :: "int option"

record RawHit =
  h_document :: "string option"
  h_metadata :: Metadata
  h_similarity :: "real option"

record RetrievedDocument =
  document_id :: int
  document_type :: string
  chunk_text :: string
  similarity_score :: "real option"
  metadata :: Metadata

section \<open>DocumentRetriever: tables\<close>

fun RETRIEVAL_COUNTS :: "Intent \<Rightarrow> int" where
  "RETRIEVAL_COUNTS ANSWER_GENERATION = 10"
| "RETRIEVAL_COUNTS ANSWER_EVALUATION = 5"
| "RETRIEVAL_COUNTS DOUBT_CLARIFICATION = 8"
| "RETRIEVAL_COUNTS QUESTION_GENERATION = 10"
| "RETRIEVAL_COUNTS EXAM_PAPER_GENERATION = 15"

fun DOCUMENT_TYPE_PRIORITIES :: "Intent \<Rightarrow> string list" where
  "DOCUMENT_TYPE_PRIORITIES ANSWER_GENERATION = [''marking_scheme'', ''notes'', ''question_paper'']"
| "DOCUMENT_TYPE_PRIORITIES ANSWER_EVALUATION = [''marking_scheme'']"
| "DOCUMENT_TYPE_PRIORITIES DOUBT_CLARIFICATION = [''notes'', ''marking_scheme'']"
| "DOCUMENT_TYPE_PRIORITIES QUESTION_GENERATION = [''notes'', ''question_paper'']"
| "DOCUMENT_TYPE_PRIORITIES EXAM_PAPER_GENERATION = [''notes'', ''question_paper'', ''marking_scheme'']"

text \<open>\<^verbatim>\<open>Settings.SIMILARITY_THRESHOLD\<close>, the default of the configuration.\<close>

definition SIMILARITY_THRESHOLD :: real where
  "SIMILARITY_THRESHOLD = 0.7"

section \<open>Python list primitives\<close>

text \<open>\<^verbatim>\<open>xs.index(x)\<close>: the first position of \<open>x\<close>. The code calls it only under \<^verbatim>\<open>x in xs\<close>.\<close>

fun index_of :: "'a list \<Rightarrow> 'a \<Rightarrow> nat" where
  "index_of [] x = 0"
| "index_of (y # ys) x = (if y = x then 0 else Suc (index_of ys x))"

text \<open>
  \<^verbatim>\<open>xs.sort(key=f, reverse=True)\<close>: the list is reversed, sorted stably in ascending order of
  the key, and reversed again, so that equal keys keep their original order.
\<close>

definition sort_reverse :: "('a \<Rightarrow> real) \<Rightarrow> 'a list \<Rightarrow> 'a list" where
  "sort_reverse f xs = rev (sort_key f (rev xs))"

text \<open>\<^verbatim>\<open>xs[:n]\<close>: a negative \<open>n\<close> counts from the end of the list.\<close>

definition slice_to :: "'a list \<Rightarrow> int \<Rightarrow> 'a list" where
  "slice_to xs n = (if n < 0 then take (nat (int (length xs) + n)) xs else take (nat n) xs)"

section \<open>DocumentRetriever: filtering and ranking\<close>

definition get_similarity :: "RawHit \<Rightarrow> real" where
  "get_similarity result = (case h_similarity result of None \<Rightarrow> 0 | Some s \<Rightarrow> s)"

definition get_document_type :: "Metadata \<Rightarrow> string" where
  "get_document_type md = (case m_document_type md of None \<Rightarrow> ''other'' | Some t \<Rightarrow> t)"

text \<open>The condition of the \<^verbatim>\<open>continue\<close> in the scoring loop.\<close>

definition access_denied :: "int \<Rightarrow> RawHit \<Rightarrow> bool" where
  "access_denied uid result \<longleftrightarrow>
     m_user_id (h_metadata result) \<noteq> Some uid \<and> m_visibility (h_metadata result) \<noteq> Some ''public''"

text \<open>
  Floating-point addition and multiplication, as the machine computes them on two floats.
\<close>

record FloatArith =
  fadd :: "real \<Rightarrow> real \<Rightarrow> real"
  fmul :: "real \<Rightarrow> real \<Rightarrow> real"

text \<open>
  The score of one result: the similarity, boosted by the priority of its document type.
  The product \<^verbatim>\<open>(len(type_priorities) - priority_index) * 0.1\<close> converts the integer to a float.
\<close>

definition boosted_score :: "FloatArith \<Rightarrow> string list \<Rightarrow> RawHit \<Rightarrow> real" where
  "boosted_score ar type_priorities result =
     (let score = get_similarity result;
          doc_type = get_document_type (h_metadata result)
      in if doc_type \<in> set type_priorities
         then let priority_index = index_of type_priorities doc_type;
                  boost = fmul ar (real_of_int (int (length type_priorities) - int priority_index)) 0.1
              in fadd ar score boost
         else score)"

text \<open>The loop over the results, with \<open>scored_results\<close> as the accumulator.\<close>

fun score_loop ::
  "FloatArith \<Rightarrow> real \<Rightarrow> string list \<Rightarrow> int \<Rightarrow> RawHit list \<Rightarrow> (RawHit \<times> real) list
     \<Rightarrow> (RawHit \<times> real) list" where
  "score_loop ar thr prio uid [] scored_results = scored_results"
| "score_loop ar thr prio uid (result # rest) scored_results =
     (if access_denied uid result then score_loop ar thr prio uid rest scored_results
      else let score = boosted_score ar prio result
           in if score \<ge> thr
              then score_loop ar thr prio uid rest (scored_results @ [(result, score)])
              else score_loop ar thr prio uid rest scored_results)"

definition filter_and_rank_results ::
  "FloatArith \<Rightarrow> real \<Rightarrow> RawHit list \<Rightarrow> Intent \<Rightarrow> int \<Rightarrow> int \<Rightarrow> RawHit list" where
  "filter_and_rank_results ar thr results intent uid n_results =
     (if results = [] then []
      else let type_priorities = DOCUMENT_TYPE_PRIORITIES intent;
               scored_results = score_loop ar thr type_priorities uid results [];
               sorted_results = sort_reverse snd scored_results
           in map fst (slice_to sorted_results n_results))"

text \<open>\<^verbatim>\<open>_format_retrieved_documents\<close>: a loop appending one document per result.\<close>

definition format_one :: "RawHit \<Rightarrow> RetrievedDocument" where
  "format_one result =
     (let md = h_metadata result
      in \<lparr> document_id = (case m_document_id md of None \<Rightarrow> 0 | Some d \<Rightarrow> d),
           document_type = get_document_type md,
           chunk_text = (case h_document result of None \<Rightarrow> '''' | Some t \<Rightarrow> t),
           similarity_score = Some (get_similarity result),
           metadata = md \<rparr>)"

fun format_loop :: "RawHit list \<Rightarrow> RetrievedDocument list \<Rightarrow> RetrievedDocument list" where
  "format_loop [] retrieved_docs = retrieved_docs"
| "format_loop (result # rest) retrieved_docs = format_loop rest (retrieved_docs @ [format_one result])"

definition format_retrieved_documents :: "RawHit list \<Rightarrow> RetrievedDocument list" where
  "format_retrieved_documents results = format_loop results []"

section \<open>Exceptions and the pipeline state\<close>

text \<open>
  A raised Python exception: the name of its class (\<^verbatim>\<open>type(e).__name__\<close>) and its text
  (\<^verbatim>\<open>str(e)\<close>). A function that can raise returns \<open>exn + 'a\<close>, with \<open>Inl\<close> for the raise.
\<close>

datatype exn = PyError (exn_class: string) (exn_text: string)

datatype ProcessingStatus = IN_PROGRESS | COMPLETED

record TaskData =
  source_type :: "string option"
  has_relevant_notes :: "bool option"

text \<open>
  \<^verbatim>\<open>GraphState\<close>, with the keys that the retriever, the doubt resolver and the orchestrator read
  or write. An optional field is \<open>None\<close> when the key is absent.
\<close>

record GraphState =
  user_id :: int
  query :: string
  conversation_id :: "int option"
  intent :: "Intent option"
  retrieved_documents :: "RetrievedDocument list"
  context_str :: string
  document_types_available :: "string list"
  retrieval_query :: "string option"
  nodes_visited :: "string list"
  task_data :: TaskData
  generated_answer :: "string option"
  evaluation_result :: "(string \<times> string) list option"
  final_response :: "string option"
  generated_questions :: "string list option"
  processing_time :: "real option"
  status :: "ProcessingStatus option"

section \<open>Python string primitives\<close>

text \<open>\<^verbatim>\<open>str.strip()\<close> on the ASCII whitespace characters.\<close>

definition is_space :: "char \<Rightarrow> bool" where
  "is_space c \<longleftrightarrow> (let k = (of_char c :: nat) in (9 \<le> k \<and> k \<le> 13) \<or> (28 \<le> k \<and> k \<le> 32))"

definition strip :: "string \<Rightarrow> string" where
  "strip s = rev (dropWhile is_space (rev (dropWhile is_space s)))"

definition upper_char :: "char \<Rightarrow> char" where
  "upper_char c = (let k = (of_char c :: nat) in if 97 \<le> k \<and> k \<le> 122 then char_of (k - 32) else c)"

definition upper :: "string \<Rightarrow> string" where
  "upper s = map upper_char s"

text \<open>\<^verbatim>\<open>s.replace('_', ' ')\<close>\<close>

definition replace_underscores :: "string \<Rightarrow> string" where
  "replace_underscores s = map (\<lambda>c. if c = CHR ''_'' then CHR '' '' else c) s"

text \<open>\<^verbatim>\<open>sep.join(parts)\<close>\<close>

fun join :: "string \<Rightarrow> string list \<Rightarrow> string" where
  "join sep [] = ''''"
| "join sep [p] = p"
| "join sep (p # q # ps) = p @ sep @ join sep (q # ps)"

text \<open>The decimal digits of a natural number, as \<^verbatim>\<open>str(i)\<close> prints it.\<close>

fun str_nat :: "nat \<Rightarrow> string" where
  "str_nat n = (if n < 10 then [char_of (48 + n)] else str_nat (n div 10) @ [char_of (48 + n mod 10)])"

declare str_nat.simps [simp del]

section \<open>DocumentRetriever: context and retrieval\<close>

definition enhancements :: "Intent \<Rightarrow> string" where
  "enhancements i = (case i of
       ANSWER_GENERATION \<Rightarrow> ''answer solution explanation''
     | ANSWER_EVALUATION \<Rightarrow> ''marking scheme grading criteria''
     | DOUBT_CLARIFICATION \<Rightarrow> ''explanation concept definition''
     | QUESTION_GENERATION \<Rightarrow> ''questions examples problems''
     | EXAM_PAPER_GENERATION \<Rightarrow> ''questions topics syllabus'')"

definition enhance_query :: "string \<Rightarrow> Intent \<Rightarrow> string" where
  "enhance_query q i = strip (q @ '' '' @ enhancements i)"

text \<open>
  The dictionary \<open>by_type\<close> of \<^verbatim>\<open>_build_context\<close> keeps its keys in insertion order; it is an
  association list here.
\<close>

fun add_to_group ::
  "RetrievedDocument \<Rightarrow> (string \<times> RetrievedDocument list) list \<Rightarrow> (string \<times> RetrievedDocument list) list" where
  "add_to_group doc [] = [(document_type doc, [doc])]"
| "add_to_group doc ((t, docs) # rest) =
     (if t = document_type doc then (t, docs @ [doc]) # rest else (t, docs) # add_to_group doc rest)"

fun group_by_type ::
  "RetrievedDocument list \<Rightarrow> (string \<times> RetrievedDocument list) list \<Rightarrow> (string \<times> RetrievedDocument list) list" where
  "group_by_type [] by_type = by_type"
| "group_by_type (doc # rest) by_type = group_by_type rest (add_to_group doc by_type)"

text \<open>
  One chunk of a group, numbered from 1. The similarity is printed with two decimals by
  \<open>fmt\<close>, the float formatting \<^verbatim>\<open>:.2f\<close>; reading a missing \<^verbatim>\<open>similarity_score\<close> raises.
\<close>

definition chunk_part :: "(real \<Rightarrow> string) \<Rightarrow> nat \<Rightarrow> RetrievedDocument \<Rightarrow> exn + string" where
  "chunk_part fmt i doc =
     (case similarity_score doc of
        None \<Rightarrow> Inl (PyError ''KeyError'' ''similarity_score'')
      | Some s \<Rightarrow> Inr (''[Chunk '' @ str_nat i @ '' | Similarity: '' @ fmt s @ '']'' @ [CHR 0x0A]
                       @ chunk_text doc @ [CHR 0x0A]))"

fun chunk_parts :: "(real \<Rightarrow> string) \<Rightarrow> nat \<Rightarrow> RetrievedDocument list \<Rightarrow> exn + string list" where
  "chunk_parts fmt i [] = Inr []"
| "chunk_parts fmt i (doc # docs) =
     (case chunk_part fmt i doc of
        Inl e \<Rightarrow> Inl e
      | Inr p \<Rightarrow> (case chunk_parts fmt (Suc i) docs of Inl e \<Rightarrow> Inl e | Inr ps \<Rightarrow> Inr (p # ps)))"

fun group_parts :: "(real \<Rightarrow> string) \<Rightarrow> (string \<times> RetrievedDocument list) list \<Rightarrow> exn + string list" where
  "group_parts fmt [] = Inr []"
| "group_parts fmt ((doc_type, docs) # rest) =
     (case chunk_parts fmt 1 docs of
        Inl e \<Rightarrow> Inl e
      | Inr ps \<Rightarrow>
          (case group_parts fmt rest of
             Inl e \<Rightarrow> Inl e
           | Inr qs \<Rightarrow>
               Inr (([CHR 0x0A] @ ''--- '' @ replace_underscores (upper doc_type) @ '' ---'' @ [CHR 0x0A])
                    # ps @ qs)))"

definition build_context :: "(real \<Rightarrow> string) \<Rightarrow> RetrievedDocument list \<Rightarrow> exn + string" where
  "build_context fmt documents =
     (if documents = [] then Inr []
      else case group_parts fmt (group_by_type documents []) of
             Inl e \<Rightarrow> Inl e
           | Inr context_parts \<Rightarrow> Inr (join [CHR 0x0A] context_parts))"

text \<open>
  What \<^verbatim>\<open>retrieve\<close> takes from outside: the vector store's search (creating the store
  included), which gives the list under \<^verbatim>\<open>"results"\<close> or raises; the configured similarity
  threshold; the float formatting; the float arithmetic.
\<close>

record Retrieval =
  vector_search :: "string \<Rightarrow> int \<Rightarrow> exn + RawHit list"
  threshold :: real
  format_2f :: "real \<Rightarrow> string"
  arith :: FloatArith

text \<open>The body of the \<^verbatim>\<open>try\<close> block of \<^verbatim>\<open>retrieve\<close>.\<close>

definition retrieve_try :: "Retrieval \<Rightarrow> GraphState \<Rightarrow> exn + GraphState" where
  "retrieve_try rt state =
     (let q = query state;
          i = (case intent state of None \<Rightarrow> DOUBT_CLARIFICATION | Some i \<Rightarrow> i);
          uid = user_id state;
          enhanced_query = enhance_query q i;
          n_results = RETRIEVAL_COUNTS i
      in case vector_search rt enhanced_query (n_results * 2) of
           Inl e \<Rightarrow> Inl e
         | Inr search_results \<Rightarrow>
             (let filtered_results = filter_and_rank_results (arith rt) (threshold rt) search_results i uid n_results;
                  retrieved_docs = format_retrieved_documents filtered_results
              in case build_context (format_2f rt) retrieved_docs of
                   Inl e \<Rightarrow> Inl e
                 | Inr c \<Rightarrow>
                     Inr (state\<lparr> retrieved_documents := retrieved_docs,
                                  context_str := c,
                                  document_types_available := remdups (map document_type retrieved_docs),
                                  retrieval_query := Some enhanced_query,
                                  nodes_visited := nodes_visited state @ [''document_retriever''] \<rparr>)))"

text \<open>\<^verbatim>\<open>retrieve\<close>: the \<^verbatim>\<open>except Exception\<close> branch sets empty results and returns the state.\<close>

definition retrieve :: "Retrieval \<Rightarrow> GraphState \<Rightarrow> exn + GraphState" where
  "retrieve rt state =
     (case retrieve_try rt state of
        Inr state' \<Rightarrow> Inr state'
      | Inl e \<Rightarrow>
          Inr (state\<lparr> retrieved_documents := [],
                       context_str := [],
                       document_types_available := [],
                       nodes_visited := nodes_visited state @ [''document_retriever''] \<rparr>))"

section \<open>DoubtResolver\<close>

text \<open>
  What the resolver takes from outside: the language model's \<^verbatim>\<open>generate\<close> (prompt, system
  prompt, temperature, max_tokens), the prompt templates, and the text of a
  \<^verbatim>\<open>WorkflowNodeException\<close> for a node name and a reason.
\<close>

record Resolver =
  llm_generate :: "string \<Rightarrow> string \<Rightarrow> real \<Rightarrow> int \<Rightarrow> exn + string"
  DOUBT_RESOLVER_SYSTEM :: string
  DOUBT_RESOLVER_NOTES_PROMPT :: "string \<Rightarrow> string \<Rightarrow> string"
  DOUBT_RESOLVER_GENERAL_SYSTEM :: string
  DOUBT_RESOLVER_GENERAL_PROMPT :: "string \<Rightarrow> string"
  workflow_node_text :: "string \<Rightarrow> string \<Rightarrow> string"

definition check_relevance :: "RetrievedDocument list \<Rightarrow> bool" where
  "check_relevance retrieved_docs =
     (if retrieved_docs = [] then False
      else let relevant_count =
                 sum_list (map (\<lambda>doc. 1::nat)
                   (filter (\<lambda>doc. (case similarity_score doc of None \<Rightarrow> 0 | Some s \<Rightarrow> s) \<ge> 0.7)
                      retrieved_docs))
           in relevant_count \<ge> 2)"

definition answer_from_notes :: "Resolver \<Rightarrow> string \<Rightarrow> string \<Rightarrow> exn + string \<times> string" where
  "answer_from_notes rs q c =
     (case llm_generate rs (DOUBT_RESOLVER_NOTES_PROMPT rs q c) (DOUBT_RESOLVER_SYSTEM rs) 0.7 1500 of
        Inl e \<Rightarrow> Inl e
      | Inr answer \<Rightarrow> Inr (strip answer, ''notes''))"

definition answer_from_general_knowledge :: "Resolver \<Rightarrow> string \<Rightarrow> exn + string \<times> string" where
  "answer_from_general_knowledge rs q =
     (case llm_generate rs (DOUBT_RESOLVER_GENERAL_PROMPT rs q) (DOUBT_RESOLVER_GENERAL_SYSTEM rs) 0.8 1500 of
        Inl e \<Rightarrow> Inl e
      | Inr answer \<Rightarrow> Inr (strip answer, ''general_knowledge''))"

text \<open>The two footers start with an emoji, written here as its UTF-8 bytes.\<close>

definition notes_footer :: string where
  "notes_footer = [CHR 0x0A, CHR 0x0A] @ ''---'' @ [CHR 0x0A, CHR 0xF0, CHR 0x9F, CHR 0x93, CHR 0x9A]
     @ '' *This answer is based on your uploaded notes.*''"

definition general_footer :: string where
  "general_footer = [CHR 0x0A, CHR 0x0A] @ ''---''
     @ [CHR 0x0A, CHR 0xE2, CHR 0x9A, CHR 0xA0, CHR 0xEF, CHR 0xB8, CHR 0x8F]
     @ '' *This answer is based on general knowledge as your uploaded notes don'' @ [CHR 0x27]
     @ ''t contain sufficient information on this topic. Please verify with your study materials.*''"

definition format_response :: "string \<Rightarrow> string \<Rightarrow> bool \<Rightarrow> string" where
  "format_response answer src relevant =
     (if src = ''notes''
      then ''## Answer (Based on Your Notes)'' @ [CHR 0x0A, CHR 0x0A] @ answer @ notes_footer
      else ''## Answer'' @ [CHR 0x0A, CHR 0x0A] @ answer @ general_footer)"

text \<open>The body of the \<^verbatim>\<open>try\<close> block of \<^verbatim>\<open>resolve\<close>.\<close>

definition resolve_try :: "Resolver \<Rightarrow> GraphState \<Rightarrow> exn + GraphState" where
  "resolve_try rs state =
     (let q = query state;
          c = context_str state;
          retrieved_docs = retrieved_documents state;
          relevant = check_relevance retrieved_docs
      in case (if relevant then answer_from_notes rs q c else answer_from_general_knowledge rs q) of
           Inl e \<Rightarrow> Inl e
         | Inr (answer, src) \<Rightarrow>
             Inr (state\<lparr> final_response := Some (format_response answer src relevant),
                          task_data := (task_data state)\<lparr> source_type := Some src,
                                                           has_relevant_notes := Some relevant \<rparr>,
                          nodes_visited := nodes_visited state @ [''doubt_resolver''] \<rparr>))"

definition resolve :: "Resolver \<Rightarrow> GraphState \<Rightarrow> exn + GraphState" where
  "resolve rs state =
     (case resolve_try rs state of
        Inr state' \<Rightarrow> Inr state'
      | Inl e \<Rightarrow> Inl (PyError ''WorkflowNodeException'' (workflow_node_text rs ''doubt_resolver'' (exn_text e))))"

section \<open>WorkflowOrchestrator\<close>

text \<open>
  What the workflow takes from outside: the initial state, the nodes for intent
  classification, answer generation, answer evaluation and question generation, and the two
  routing functions. A node takes the state and returns the updated state, or raises.
\<close>

record Pipeline =
  create_initial_state :: "int \<Rightarrow> string \<Rightarrow> int option \<Rightarrow> exn + GraphState"
  classify_intent_node :: "GraphState \<Rightarrow> exn + GraphState"
  generate_answer_node :: "GraphState \<Rightarrow> exn + GraphState"
  evaluate_answer_node :: "GraphState \<Rightarrow> exn + GraphState"
  generate_questions_node :: "GraphState \<Rightarrow> exn + GraphState"
  route_after_intent :: "GraphState \<Rightarrow> exn + string"
  route_after_retrieval :: "GraphState \<Rightarrow> exn + string"
  retrieval :: Retrieval
  resolver :: Resolver

definition retrieve_documents_node :: "Pipeline \<Rightarrow> GraphState \<Rightarrow> exn + GraphState" where
  "retrieve_documents_node p state = retrieve (retrieval p) state"

definition resolve_doubt_node :: "Pipeline \<Rightarrow> GraphState \<Rightarrow> exn + GraphState" where
  "resolve_doubt_node p state = resolve (resolver p) state"

text \<open>
  The graph of \<^verbatim>\<open>_build_graph\<close>. Each task node has an edge to \<^verbatim>\<open>END\<close>. The conditional
  edges after retrieval map the router's key to a task node or to \<^verbatim>\<open>END\<close>; a key outside
  the mapping is an error of the graph library.
\<close>

definition task_node :: "Pipeline \<Rightarrow> string \<Rightarrow> (GraphState \<Rightarrow> exn + GraphState) option" where
  "task_node p key =
     (if key = ''generate_answer'' then Some (generate_answer_node p)
      else if key = ''evaluate_answer'' then Some (evaluate_answer_node p)
      else if key = ''resolve_doubt'' then Some (resolve_doubt_node p)
      else if key = ''generate_questions'' then Some (generate_questions_node p)
      else None)"

definition after_retrieval :: "Pipeline \<Rightarrow> GraphState \<Rightarrow> exn + GraphState" where
  "after_retrieval p state =
     (case route_after_retrieval p state of
        Inl e \<Rightarrow> Inl e
      | Inr key \<Rightarrow>
          (case task_node p key of
             Some task \<Rightarrow> task state
           | None \<Rightarrow> if key = ''end'' then Inr state else Inl (PyError ''KeyError'' key)))"

definition after_intent :: "Pipeline \<Rightarrow> GraphState \<Rightarrow> exn + GraphState" where
  "after_intent p state =
     (case route_after_intent p state of
        Inl e \<Rightarrow> Inl e
      | Inr key \<Rightarrow>
          if key = ''retrieve_documents''
          then (case retrieve_documents_node p state of
                  Inl e \<Rightarrow> Inl e
                | Inr state' \<Rightarrow> after_retrieval p state')
          else if key = ''end'' then Inr state
          else Inl (PyError ''KeyError'' key))"

text \<open>\<^verbatim>\<open>self.graph.ainvoke\<close>: the entry point is \<^verbatim>\<open>classify_intent\<close>.\<close>

definition ainvoke :: "Pipeline \<Rightarrow> GraphState \<Rightarrow> exn + GraphState" where
  "ainvoke p initial_state =
     (case classify_intent_node p initial_state of
        Inl e \<Rightarrow> Inl e
      | Inr state \<Rightarrow> after_intent p state)"

text \<open>\<^verbatim>\<open>intent.value\<close>, the strings that \<^verbatim>\<open>get_workflow_info\<close> lists as supported intents.\<close>

definition intent_value :: "Intent \<Rightarrow> string" where
  "intent_value i = (case i of
       ANSWER_GENERATION \<Rightarrow> ''answer_generation''
     | ANSWER_EVALUATION \<Rightarrow> ''answer_evaluation''
     | DOUBT_CLARIFICATION \<Rightarrow> ''doubt_clarification''
     | QUESTION_GENERATION \<Rightarrow> ''question_generation''
     | EXAM_PAPER_GENERATION \<Rightarrow> ''exam_paper_generation'')"

record ResponseMetadata =
  meta_user_id :: int
  meta_conversation_id :: "int option"
  document_types_used :: "string list"
  num_documents_retrieved :: nat
  context_length :: "nat option"

record SuccessResponse =
  r_intent :: string
  r_processing_time :: real
  r_nodes_visited :: "string list"
  r_metadata :: ResponseMetadata
  r_answer :: "string option"
  r_evaluation :: "(string \<times> string) list option"
  r_response :: "string option"
  r_questions :: "string list option"

record FailureResponse =
  f_error :: string
  f_error_type :: string
  f_processing_time :: real
  f_user_id :: int
  f_query :: string

text \<open>The returned dictionary: \<^verbatim>\<open>"success": True\<close> or \<^verbatim>\<open>"success": False\<close>.\<close>

datatype PipelineResult = Success SuccessResponse | Failure FailureResponse

text \<open>\<^verbatim>\<open>if state.get(key)\<close>: an absent or empty value adds nothing to the response.\<close>

definition truthy :: "'a list option \<Rightarrow> 'a list option" where
  "truthy v = (case v of None \<Rightarrow> None | Some xs \<Rightarrow> if xs = [] then None else Some xs)"

definition build_response :: "GraphState \<Rightarrow> SuccessResponse" where
  "build_response state =
     \<lparr> r_intent = (case intent state of Some i \<Rightarrow> intent_value i | None \<Rightarrow> ''unknown''),
       r_processing_time = (case processing_time state of Some t \<Rightarrow> t | None \<Rightarrow> 0),
       r_nodes_visited = nodes_visited state,
       r_metadata = \<lparr> meta_user_id = user_id state,
                      meta_conversation_id = conversation_id state,
                      document_types_used = document_types_available state,
                      num_documents_retrieved = length (retrieved_documents state),
                      context_length = (if context_str state \<noteq> [] then Some (length (context_str state))
                                        else None) \<rparr>,
       r_answer = truthy (generated_answer state),
       r_evaluation = truthy (evaluation_result state),
       r_response = truthy (final_response state),
       r_questions = truthy (generated_questions state) \<rparr>"

text \<open>
  The body of the \<^verbatim>\<open>try\<close> block of \<^verbatim>\<open>process_query\<close>. The clock is read at the start (\<open>t0\<close>)
  and once more (\<open>t1\<close>), after the workflow has run or in the \<^verbatim>\<open>except\<close> branch.
\<close>

definition process_query_try ::
  "Pipeline \<Rightarrow> real \<Rightarrow> real \<Rightarrow> int \<Rightarrow> string \<Rightarrow> int option \<Rightarrow> exn + SuccessResponse" where
  "process_query_try p t0 t1 uid q cid =
     (case create_initial_state p uid q cid of
        Inl e \<Rightarrow> Inl e
      | Inr initial_state \<Rightarrow>
          (case ainvoke p (initial_state\<lparr> status := Some IN_PROGRESS \<rparr>) of
             Inl e \<Rightarrow> Inl e
           | Inr final_state \<Rightarrow>
               Inr (build_response (final_state\<lparr> processing_time := Some (t1 - t0),
                                                 status := Some COMPLETED \<rparr>))))"

definition process_query ::
  "Pipeline \<Rightarrow> real \<Rightarrow> real \<Rightarrow> int \<Rightarrow> string \<Rightarrow> int option \<Rightarrow> exn + PipelineResult" where
  "process_query p t0 t1 uid q cid =
     (case process_query_try p t0 t1 uid q cid of
        Inr response \<Rightarrow> Inr (Success response)
      | Inl e \<Rightarrow>
          Inr (Failure \<lparr> f_error = exn_text e,
                         f_error_type = exn_class e,
                         f_processing_time = t1 - t0,
                         f_user_id = uid,
                         f_query = q \<rparr>))"

text \<open>
  Modelled from the spec: the routing functions \<^verbatim>\<open>route_after_intent\<close> and
  \<^verbatim>\<open>route_after_retrieval\<close> of \<^verbatim>\<open>app.nodes.router\<close>, which the sources do not include. After
  classification every known intent goes to retrieval, and an unrecognised intent to the end.
  After retrieval each intent goes to its task; \<^verbatim>\<open>EXAM_PAPER_GENERATION\<close> has no executor and
  is the fatal error \<^verbatim>\<open>UnsupportedIntent\<close>, which the orchestrator catches like every other.
\<close>

definition route_after_intent_spec :: "Intent option \<Rightarrow> exn + string" where
  "route_after_intent_spec i = (case i of Some _ \<Rightarrow> Inr ''retrieve_documents'' | None \<Rightarrow> Inr ''end'')"

definition route_after_retrieval_spec :: "Intent \<Rightarrow> exn + string" where
  "route_after_retrieval_spec i = (case i of
       ANSWER_GENERATION \<Rightarrow> Inr ''generate_answer''
     | ANSWER_EVALUATION \<Rightarrow> Inr ''evaluate_answer''
     | DOUBT_CLARIFICATION \<Rightarrow> Inr ''resolve_doubt''
     | QUESTION_GENERATION \<Rightarrow> Inr ''generate_questions''
     | EXAM_PAPER_GENERATION \<Rightarrow> Inl (PyError ''UnsupportedIntent'' (intent_value EXAM_PAPER_GENERATION)))"

section \<open>Streaming: the message list of \<^verbatim>\<open>stream_query\<close>\<close>

text \<open>A row of the table \<^verbatim>\<open>messages\<close>; \<^verbatim>\<open>id\<close> is its key.\<close>

record MessageRow =
  msg_id :: int
  msg_conversation_id :: int
  msg_role :: string
  msg_content :: string

text \<open>
  \<^verbatim>\<open>SELECT role, content FROM messages WHERE conversation_id = ? ORDER BY id DESC LIMIT 10\<close>
\<close>

definition select_rows :: "MessageRow list \<Rightarrow> int \<Rightarrow> MessageRow list" where
  "select_rows messages_table cid =
     take 10 (rev (sort_key msg_id (filter (\<lambda>m. msg_conversation_id m = cid) messages_table)))"

definition fetchall :: "MessageRow list \<Rightarrow> int \<Rightarrow> (string \<times> string) list" where
  "fetchall messages_table cid = map (\<lambda>m. (msg_role m, msg_content m)) (select_rows messages_table cid)"

definition final_query_with_context :: "string \<Rightarrow> string \<Rightarrow> string" where
  "final_query_with_context c q =
     ''Context information is below.'' @ [CHR 0x0A] @ ''---------------------'' @ [CHR 0x0A] @ c
     @ [CHR 0x0A] @ ''---------------------'' @ [CHR 0x0A]
     @ ''Given the context information and not prior knowledge, answer the query.'' @ [CHR 0x0A]
     @ ''Query: '' @ q"

text \<open>
  The message list built by \<^verbatim>\<open>event_generator\<close>, from the table as it is when the history
  is fetched, the context found by the retriever, and the two system prompts.
\<close>

definition stream_messages ::
  "string \<Rightarrow> string \<Rightarrow> MessageRow list \<Rightarrow> int \<Rightarrow> string \<Rightarrow> string \<Rightarrow> (string \<times> string) list" where
  "stream_messages system_notes system_general messages_table cid q c =
     (let history_rows = rev (fetchall messages_table cid);
          messages = [];
          system_prompt_text = (if c \<noteq> [] then system_notes else system_general);
          final_query = (if c \<noteq> [] then final_query_with_context c q else q);
          messages = messages @ [(''system'', system_prompt_text)];
          history_rows = (if history_rows \<noteq> [] \<and> snd (last history_rows) = q
                          then butlast history_rows else history_rows);
          messages = messages @ history_rows
      in messages @ [(''user'', final_query)])"

section \<open>Definitions for the statements\<close>

text \<open>A retrieved document whose \<^verbatim>\<open>similarity_score\<close> is present and at least 0.7.\<close>

definition high_similarity :: "RetrievedDocument \<Rightarrow> bool" where
  "high_similarity doc \<longleftrightarrow> (case similarity_score doc of None \<Rightarrow> False | Some s \<Rightarrow> 0.7 \<le> s)"

text \<open>Readers of the returned dictionary: the trace, the intent and the error type.\<close>

definition result_trace :: "exn + PipelineResult \<Rightarrow> string list option" where
  "result_trace r = (case r of Inr (Success resp) \<Rightarrow> Some (r_nodes_visited resp) | _ \<Rightarrow> None)"

definition result_intent :: "exn + PipelineResult \<Rightarrow> string option" where
  "result_intent r = (case r of Inr (Success resp) \<Rightarrow> Some (r_intent resp) | _ \<Rightarrow> None)"

definition result_error_type :: "exn + PipelineResult \<Rightarrow> string option" where
  "result_error_type r = (case r of Inr (Failure f) \<Rightarrow> Some (f_error_type f) | _ \<Rightarrow> None)"

text \<open>The state that the \<^verbatim>\<open>except\<close> branch of \<^verbatim>\<open>retrieve\<close> returns.\<close>

definition retrieval_failed :: "GraphState \<Rightarrow> GraphState" where
  "retrieval_failed state =
     state\<lparr> retrieved_documents := [], context_str := [], document_types_available := [],
            nodes_visited := nodes_visited state @ [''document_retriever''] \<rparr>"

text \<open>\<^verbatim>\<open>state.get("intent", Intent.DOUBT_CLARIFICATION)\<close>\<close>

definition intent_or_default :: "GraphState \<Rightarrow> Intent" where
  "intent_or_default state = (case intent state of None \<Rightarrow> DOUBT_CLARIFICATION | Some i \<Rightarrow> i)"

text \<open>
  The history as the specification words it: the messages of the conversation in
  chronological order (ascending \<^verbatim>\<open>id\<close>), the last ten of them, without the newest one when
  its content is the current query.
\<close>

definition conversation :: "MessageRow list \<Rightarrow> int \<Rightarrow> MessageRow list" where
  "conversation messages_table cid =
     sort_key msg_id (filter (\<lambda>m. msg_conversation_id m = cid) messages_table)"

definition last_n :: "nat \<Rightarrow> 'a list \<Rightarrow> 'a list" where
  "last_n n xs = drop (length xs - n) xs"

definition history_spec :: "MessageRow list \<Rightarrow> int \<Rightarrow> string \<Rightarrow> MessageRow list" where
  "history_spec messages_table cid q =
     (let recent = last_n 10 (conversation messages_table cid)
      in if recent \<noteq> [] \<and> msg_content (last recent) = q then butlast recent else recent)"

text \<open>The results that the scoring loop keeps.\<close>

definition keeps :: "FloatArith \<Rightarrow> real \<Rightarrow> string list \<Rightarrow> int \<Rightarrow> RawHit \<Rightarrow> bool" where
  "keeps ar thr prio uid r \<longleftrightarrow> \<not> access_denied uid r \<and> boosted_score ar prio r \<ge> thr"

section \<open>Sample search results\<close>

definition hit_own_notes :: RawHit where
  "hit_own_notes = \<lparr> h_document = Some ''own notes'',
     h_metadata = \<lparr> m_user_id = Some 1, m_visibility = Some ''private'',
                     m_document_type = Some ''notes'', m_document_id = Some 11 \<rparr>,
     h_similarity = Some 0.9 \<rparr>"

definition hit_other_private :: RawHit where
  "hit_other_private = \<lparr> h_document = Some ''private notes of user 2'',
     h_metadata = \<lparr> m_user_id = Some 2, m_visibility = Some ''private'',
                     m_document_type = Some ''notes'', m_document_id = Some 12 \<rparr>,
     h_similarity = Some 0.95 \<rparr>"

definition hit_public_scheme :: RawHit where
  "hit_public_scheme = \<lparr> h_document = Some ''public marking scheme'',
     h_metadata = \<lparr> m_user_id = Some 2, m_visibility = Some ''public'',
                     m_document_type = Some ''marking_scheme'', m_document_id = Some 13 \<rparr>,
     h_similarity = Some 0.9 \<rparr>"

definition hit_low_notes :: RawHit where
  "hit_low_notes = \<lparr> h_document = Some ''weakly related notes'',
     h_metadata = \<lparr> m_user_id = Some 1, m_visibility = Some ''private'',
                     m_document_type = Some ''notes'', m_document_id = Some 14 \<rparr>,
     h_similarity = Some 0.5 \<rparr>"

definition hit_scheme_low :: RawHit where
  "hit_scheme_low = \<lparr> h_document = Some ''own marking scheme'',
     h_metadata = \<lparr> m_user_id = Some 1, m_visibility = Some ''private'',
                     m_document_type = Some ''marking_scheme'', m_document_id = Some 15 \<rparr>,
     h_similarity = Some 0.4 \<rparr>"

definition hit_notes_first :: RawHit where
  "hit_notes_first = \<lparr> h_document = Some ''notes found first'',
     h_metadata = \<lparr> m_user_id = Some 1, m_visibility = Some ''private'',
                     m_document_type = Some ''notes'', m_document_id = Some 16 \<rparr>,
     h_similarity = Some 0.7 \<rparr>"

definition hit_scheme_second :: RawHit where
  "hit_scheme_second = \<lparr> h_document = Some ''marking scheme found second'',
     h_metadata = \<lparr> m_user_id = Some 1, m_visibility = Some ''private'',
                     m_document_type = Some ''marking_scheme'', m_document_id = Some 17 \<rparr>,
     h_similarity = Some 0.8 \<rparr>"

text \<open>
  Double-precision addition and multiplication at the arguments that the examples use, the
  results written as Python prints them: \<^verbatim>\<open>3 * 0.1\<close> is \<^verbatim>\<open>0.30000000000000004\<close>,
  \<^verbatim>\<open>0.4 + 0.30000000000000004\<close> is \<^verbatim>\<open>0.7000000000000001\<close>, \<^verbatim>\<open>0.7 + 0.2\<close> is
  \<^verbatim>\<open>0.8999999999999999\<close>, \<^verbatim>\<open>0.9 + 0.30000000000000004\<close> is \<^verbatim>\<open>1.2000000000000002\<close> and
  \<^verbatim>\<open>0.49999999999999994 + 0.2\<close> is \<^verbatim>\<open>0.7\<close>. The
  other sums and products of the examples (\<^verbatim>\<open>2 * 0.1\<close>, \<^verbatim>\<open>1 * 0.1\<close>, \<^verbatim>\<open>0.9 + 0.2\<close>,
  \<^verbatim>\<open>0.9 + 0.1\<close>, \<^verbatim>\<open>0.8 + 0.1\<close>, \<^verbatim>\<open>0.5 + 0.2\<close>) print as the exact results.
\<close>

definition double_add :: "real \<Rightarrow> real \<Rightarrow> real" where
  "double_add x y =
     (if x = 0.4 \<and> y = 0.30000000000000004 then 0.7000000000000001
      else if x = 0.7 \<and> y = 0.2 then 0.8999999999999999
      else if x = 0.9 \<and> y = 0.30000000000000004 then 1.2000000000000002
      else if x = 0.49999999999999994 \<and> y = 0.2 then 0.7
      else x + y)"

definition double_mul :: "real \<Rightarrow> real \<Rightarrow> real" where
  "double_mul x y = (if x = 3 \<and> y = 0.1 then 0.30000000000000004 else x * y)"

definition double_arith :: FloatArith where
  "double_arith = \<lparr> fadd = double_add, fmul = double_mul \<rparr>"

section \<open>Sample pipeline\<close>

text \<open>An initial state with an empty trace, and a resolver whose model echoes its prompt.\<close>

definition sample_state :: "int \<Rightarrow> string \<Rightarrow> int option \<Rightarrow> GraphState" where
  "sample_state uid q cid =
     \<lparr> user_id = uid, query = q, conversation_id = cid, intent = None,
       retrieved_documents = [], context_str = [], document_types_available = [],
       retrieval_query = None, nodes_visited = [],
       task_data = \<lparr> source_type = None, has_relevant_notes = None \<rparr>,
       generated_answer = None, evaluation_result = None, final_response = None,
       generated_questions = None, processing_time = None, status = None \<rparr>"

definition echo_llm :: "string \<Rightarrow> string \<Rightarrow> real \<Rightarrow> int \<Rightarrow> exn + string" where
  "echo_llm prompt system_prompt temperature max_tokens = Inr prompt"

definition notes_template :: "string \<Rightarrow> string \<Rightarrow> string" where
  "notes_template q c = ''notes: '' @ q"

definition general_template :: "string \<Rightarrow> string" where
  "general_template q = ''general: '' @ q"

definition node_text :: "string \<Rightarrow> string \<Rightarrow> string" where
  "node_text node reason = node @ '': '' @ reason"

definition sample_resolver :: Resolver where
  "sample_resolver =
     \<lparr> llm_generate = echo_llm,
       DOUBT_RESOLVER_SYSTEM = ''system for notes'',
       DOUBT_RESOLVER_NOTES_PROMPT = notes_template,
       DOUBT_RESOLVER_GENERAL_SYSTEM = ''system for general knowledge'',
       DOUBT_RESOLVER_GENERAL_PROMPT = general_template,
       workflow_node_text = node_text \<rparr>"

text \<open>A search that finds nothing, and one that raises.\<close>

definition no_hits_search :: "string \<Rightarrow> int \<Rightarrow> exn + RawHit list" where
  "no_hits_search q n = Inr []"

definition failing_search :: "string \<Rightarrow> int \<Rightarrow> exn + RawHit list" where
  "failing_search q n = Inl (PyError ''ConnectionError'' ''vector store unavailable'')"

definition two_decimals :: "real \<Rightarrow> string" where
  "two_decimals x = ''0.00''"

text \<open>
  Sample nodes: each appends the name of its graph node to the trace, the name the
  specification expects there. The routing follows the specification.
\<close>

definition sample_initial_state :: "int \<Rightarrow> string \<Rightarrow> int option \<Rightarrow> exn + GraphState" where
  "sample_initial_state uid q cid = Inr (sample_state uid q cid)"

definition sample_classifier :: "Intent \<Rightarrow> GraphState \<Rightarrow> exn + GraphState" where
  "sample_classifier i state =
     Inr (state\<lparr> intent := Some i, nodes_visited := nodes_visited state @ [''classify_intent''] \<rparr>)"

definition sample_task :: "string \<Rightarrow> GraphState \<Rightarrow> exn + GraphState" where
  "sample_task name state =
     Inr (state\<lparr> generated_answer := Some ''an answer'',
                  nodes_visited := nodes_visited state @ [name] \<rparr>)"

definition failing_task :: "GraphState \<Rightarrow> exn + GraphState" where
  "failing_task state = Inl (PyError ''GenerationError'' ''model unavailable'')"

definition spec_route_after_intent :: "GraphState \<Rightarrow> exn + string" where
  "spec_route_after_intent state = route_after_intent_spec (intent state)"

definition spec_route_after_retrieval :: "GraphState \<Rightarrow> exn + string" where
  "spec_route_after_retrieval state =
     (case intent state of None \<Rightarrow> Inr ''end'' | Some i \<Rightarrow> route_after_retrieval_spec i)"

definition sample_pipeline ::
  "Intent \<Rightarrow> (string \<Rightarrow> int \<Rightarrow> exn + RawHit list) \<Rightarrow> (GraphState \<Rightarrow> exn + GraphState) \<Rightarrow> Pipeline" where
  "sample_pipeline i search answer_node =
     \<lparr> create_initial_state = sample_initial_state,
       classify_intent_node = sample_classifier i,
       generate_answer_node = answer_node,
       evaluate_answer_node = sample_task ''evaluate_answer'',
       generate_questions_node = sample_task ''generate_questions'',
       route_after_intent = spec_route_after_intent,
       route_after_retrieval = spec_route_after_retrieval,
       retrieval = \<lparr> vector_search = search, threshold = SIMILARITY_THRESHOLD, format_2f = two_decimals,
                     arith = double_arith \<rparr>,
       resolver = sample_resolver \<rparr>"

text \<open>The state after the sample classifier.\<close>

definition classified :: "Intent \<Rightarrow> GraphState \<Rightarrow> GraphState" where
  "classified i state = state\<lparr> intent := Some i, nodes_visited := nodes_visited state @ [''classify_intent''] \<rparr>"

text \<open>
  Modelled from the spec: the initial state and the nodes for intent classification and
  answer generation, which the sources do not include (\<^verbatim>\<open>app.core.state\<close>,
  \<^verbatim>\<open>app.nodes.intent_classifier\<close>, \<^verbatim>\<open>app.nodes.answer_generator\<close>). The pipeline state is
  created at the start of the pipeline, with an empty trace. Each stage appends its name,
  \<^verbatim>\<open>classify_intent\<close> or \<^verbatim>\<open>generate_answer\<close>, to the trace. The classifier is external: it
  gives the intent of a query or fails. The generation is external: it gives a text for
  the query and the context, or fails.
\<close>

definition initial_state_spec :: "int \<Rightarrow> string \<Rightarrow> int option \<Rightarrow> GraphState" where
  "initial_state_spec uid q cid =
     \<lparr> user_id = uid, query = q, conversation_id = cid, intent = None,
       retrieved_documents = [], context_str = [], document_types_available = [],
       retrieval_query = None, nodes_visited = [],
       task_data = \<lparr> source_type = None, has_relevant_notes = None \<rparr>,
       generated_answer = None, evaluation_result = None, final_response = None,
       generated_questions = None, processing_time = None, status = None \<rparr>"

definition create_initial_state_spec :: "int \<Rightarrow> string \<Rightarrow> int option \<Rightarrow> exn + GraphState" where
  "create_initial_state_spec uid q cid = Inr (initial_state_spec uid q cid)"

definition classify_intent_node_spec :: "(string \<Rightarrow> exn + Intent) \<Rightarrow> GraphState \<Rightarrow> exn + GraphState" where
  "classify_intent_node_spec classify state =
     (case classify (query state) of
        Inl e \<Rightarrow> Inl e
      | Inr i \<Rightarrow> Inr (state\<lparr> intent := Some i,
                             nodes_visited := nodes_visited state @ [''classify_intent''] \<rparr>))"

definition generate_answer_node_spec ::
  "(string \<Rightarrow> string \<Rightarrow> exn + string) \<Rightarrow> GraphState \<Rightarrow> exn + GraphState" where
  "generate_answer_node_spec generate state =
     (case generate (query state) (context_str state) of
        Inl e \<Rightarrow> Inl e
      | Inr answer \<Rightarrow> Inr (state\<lparr> generated_answer := Some answer,
                                  nodes_visited := nodes_visited state @ [''generate_answer''] \<rparr>))"

text \<open>
  The workflow with the parts modelled from the spec, around the retrieval and the doubt
  resolver of the sources. The nodes for evaluation and question generation stay parameters.
\<close>

definition spec_pipeline ::
  "(string \<Rightarrow> exn + Intent) \<Rightarrow> (string \<Rightarrow> string \<Rightarrow> exn + string)
     \<Rightarrow> (GraphState \<Rightarrow> exn + GraphState) \<Rightarrow> (GraphState \<Rightarrow> exn + GraphState)
     \<Rightarrow> Retrieval \<Rightarrow> Resolver \<Rightarrow> Pipeline" where
  "spec_pipeline classify generate evaluate_node questions_node rt rs =
     \<lparr> create_initial_state = create_initial_state_spec,
       classify_intent_node = classify_intent_node_spec classify,
       generate_answer_node = generate_answer_node_spec generate,
       evaluate_answer_node = evaluate_node,
       generate_questions_node = questions_node,
       route_after_intent = spec_route_after_intent,
       route_after_retrieval = spec_route_after_retrieval,
       retrieval = rt,
       resolver = rs \<rparr>"

text \<open>A classifier that finds answer generation, a generation that answers, and a retrieval.\<close>

definition classify_answer_generation :: "string \<Rightarrow> exn + Intent" where
  "classify_answer_generation q = Inr ANSWER_GENERATION"

definition generate_text :: "string \<Rightarrow> string \<Rightarrow> exn + string" where
  "generate_text q c = Inr ''an answer''"

definition sample_retrieval :: Retrieval where
  "sample_retrieval = \<lparr> vector_search = no_hits_search, threshold = SIMILARITY_THRESHOLD,
                         format_2f = two_decimals, arith = double_arith \<rparr>"

definition answer_pipeline :: Pipeline where
  "answer_pipeline = spec_pipeline classify_answer_generation generate_text
     (sample_task ''evaluate_answer'') (sample_task ''generate_questions'')
     sample_retrieval sample_resolver"

text \<open>A state with a context and two retrieved documents, of similarity 0.9 and a given one.\<close>

definition doubt_state :: "real \<Rightarrow> GraphState" where
  "doubt_state second_similarity =
     (sample_state 1 ''What is recursion?'' None)
       \<lparr> intent := Some DOUBT_CLARIFICATION,
         retrieved_documents := [format_one hit_own_notes,
                                 format_one (hit_low_notes\<lparr> h_similarity := Some second_similarity \<rparr>)],
         context_str := ''--- NOTES ---'' \<rparr>"

text \<open>A table of messages with two conversations; the newest message of 7 is the query.\<close>

definition sample_table :: "MessageRow list" where
  "sample_table =
     [\<lparr> msg_id = 3, msg_conversation_id = 7, msg_role = ''user'', msg_content = ''What is recursion?'' \<rparr>,
      \<lparr> msg_id = 1, msg_conversation_id = 7, msg_role = ''user'', msg_content = ''hi'' \<rparr>,
      \<lparr> msg_id = 2, msg_conversation_id = 7, msg_role = ''assistant'', msg_content = ''hello'' \<rparr>,
      \<lparr> msg_id = 4, msg_conversation_id = 8, msg_role = ''user'', msg_content = ''other'' \<rparr>]"

section \<open>Properties of filtering and ranking\<close>

lemmas hit_defs = hit_own_notes_def hit_other_private_def hit_public_scheme_def hit_low_notes_def
  hit_scheme_low_def hit_notes_first_def hit_scheme_second_def

lemmas rank_defs = filter_and_rank_results_def access_denied_def boosted_score_def
  get_similarity_def get_document_type_def sort_reverse_def slice_to_def Let_def
  double_arith_def double_add_def double_mul_def

lemma score_loop_eq:
  "score_loop ar thr prio uid rs acc =
     acc @ map (\<lambda>r. (r, boosted_score ar prio r)) (filter (keeps ar thr prio uid) rs)"
  by (induction rs arbitrary: acc) (simp_all add: keeps_def Let_def)

lemma set_slice_to: "set (slice_to xs n) \<subseteq> set xs"
  by (auto simp: slice_to_def dest: in_set_takeD)

lemma slice_to_prefix: "prefix (slice_to xs n) xs"
  by (simp add: slice_to_def take_is_prefix)

lemma length_slice_to: "0 \<le> n \<Longrightarrow> int (length (slice_to xs n)) \<le> n"
  by (simp add: slice_to_def)

lemma set_sort_reverse: "set (sort_reverse f xs) = set xs"
  by (simp add: sort_reverse_def)

lemma sort_reverse_stable:
  "filter (\<lambda>y. f y = k) (sort_reverse f xs) = filter (\<lambda>y. f y = k) xs"
  by (simp add: sort_reverse_def rev_filter [symmetric] sort_key_stable)

lemma sort_reverse_sorted: "sorted (rev (map f (sort_reverse f xs)))"
  by (simp add: sort_reverse_def rev_map [symmetric])

lemma filter_and_rank_eq:
  "filter_and_rank_results ar thr results it uid n =
     map fst (slice_to (sort_reverse snd (map (\<lambda>r. (r, boosted_score ar (DOCUMENT_TYPE_PRIORITIES it) r))
        (filter (keeps ar thr (DOCUMENT_TYPE_PRIORITIES it) uid) results))) n)"
  by (cases "results = []") (simp_all add: filter_and_rank_results_def score_loop_eq slice_to_def sort_reverse_def Let_def)

lemma filter_and_rank_subset:
  "set (filter_and_rank_results ar thr results it uid n) \<subseteq>
     {r \<in> set results. keeps ar thr (DOCUMENT_TYPE_PRIORITIES it) uid r}"
proof -
  have "set (filter_and_rank_results ar thr results it uid n) \<subseteq>
     fst ` set (sort_reverse snd (map (\<lambda>r. (r, boosted_score ar (DOCUMENT_TYPE_PRIORITIES it) r))
        (filter (keeps ar thr (DOCUMENT_TYPE_PRIORITIES it) uid) results)))"
    unfolding filter_and_rank_eq using set_slice_to by fastforce
  then show ?thesis by (auto simp: set_sort_reverse)
qed

lemma index_of_nth: "distinct xs \<Longrightarrow> i < length xs \<Longrightarrow> index_of xs (xs ! i) = i"
proof (induction xs arbitrary: i)
  case Nil
  then show ?case by simp
next
  case (Cons y ys)
  then show ?case by (cases i) auto
qed

lemma distinct_priorities: "distinct (DOCUMENT_TYPE_PRIORITIES it)"
  by (cases it) simp_all

lemma boosted_score_at:
  assumes "distinct prio" "i < length prio" "prio ! i = get_document_type (h_metadata r)"
  shows "boosted_score ar prio r
    = fadd ar (get_similarity r) (fmul ar (real_of_int (int (length prio) - int i)) 0.1)"
proof -
  have "index_of prio (get_document_type (h_metadata r)) = i"
    using index_of_nth [OF assms(1,2)] assms(3) by simp
  moreover have "get_document_type (h_metadata r) \<in> set prio"
    using assms(2,3) nth_mem by metis
  ultimately show ?thesis by (simp add: boosted_score_def Let_def)
qed

lemma boosted_score_absent:
  "get_document_type (h_metadata r) \<notin> set prio \<Longrightarrow> boosted_score ar prio r = get_similarity r"
  by (simp add: boosted_score_def Let_def)

lemma sorted_wrt_ge_iff: "sorted_wrt (\<ge>) xs \<longleftrightarrow> sorted (rev (xs :: real list))"
  by (simp add: sorted_wrt_rev)

lemma map_slice_to: "map f (slice_to xs n) = slice_to (map f xs) n"
  by (simp add: slice_to_def take_map)

lemma scores_of_sorted:
  "map (\<lambda>p. boosted_score ar prio (fst p)) (sort_reverse snd (map (\<lambda>r. (r, boosted_score ar prio r)) xs))
      = map snd (sort_reverse snd (map (\<lambda>r. (r, boosted_score ar prio r)) xs))"
  by (rule map_cong) (auto simp: set_sort_reverse)

lemma sorted_desc_slice: "sorted_wrt (\<ge>) (xs :: real list) \<Longrightarrow> sorted_wrt (\<ge>) (slice_to xs n)"
  by (simp add: slice_to_def)

lemma filter_and_rank_sorted:
  "sorted_wrt (\<ge>) (map (boosted_score ar (DOCUMENT_TYPE_PRIORITIES it))
     (filter_and_rank_results ar thr results it uid n))"
proof -
  let ?prio = "DOCUMENT_TYPE_PRIORITIES it"
  let ?S = "sort_reverse snd (map (\<lambda>r. (r, boosted_score ar ?prio r)) (filter (keeps ar thr ?prio uid) results))"
  have "map (boosted_score ar ?prio) (filter_and_rank_results ar thr results it uid n)
      = slice_to (map snd ?S) n"
    by (simp add: filter_and_rank_eq map_slice_to comp_def scores_of_sorted)
  moreover have "sorted_wrt (\<ge>) (map snd ?S)"
    using sort_reverse_sorted [of snd] by (simp add: sorted_wrt_ge_iff)
  ultimately show ?thesis by (simp add: sorted_desc_slice)
qed

lemma filter_and_rank_stable:
  "prefix (filter (\<lambda>r. boosted_score ar (DOCUMENT_TYPE_PRIORITIES it) r = k)
             (filter_and_rank_results ar thr results it uid n))
          (filter (\<lambda>r. boosted_score ar (DOCUMENT_TYPE_PRIORITIES it) r = k \<and> \<not> access_denied uid r)
             results)"
proof -
  let ?prio = "DOCUMENT_TYPE_PRIORITIES it"
  let ?K = "filter (keeps ar thr ?prio uid) results"
  let ?S = "sort_reverse snd (map (\<lambda>r. (r, boosted_score ar ?prio r)) ?K)"
  have all: "filter (\<lambda>r. boosted_score ar ?prio r = k) (map fst ?S) = filter (\<lambda>r. boosted_score ar ?prio r = k) ?K"
  proof -
    have "filter (\<lambda>r. boosted_score ar ?prio r = k) (map fst ?S)
        = map fst (filter (\<lambda>p. boosted_score ar ?prio (fst p) = k) ?S)"
      by (simp add: filter_map comp_def)
    also have "filter (\<lambda>p. boosted_score ar ?prio (fst p) = k) ?S = filter (\<lambda>p. snd p = k) ?S"
      by (rule filter_cong) (auto simp: set_sort_reverse)
    also have "\<dots> = filter (\<lambda>p. snd p = k) (map (\<lambda>r. (r, boosted_score ar ?prio r)) ?K)"
      by (rule sort_reverse_stable)
    also have "map fst \<dots> = filter (\<lambda>r. boosted_score ar ?prio r = k) ?K"
      by (simp add: filter_map comp_def)
    finally show ?thesis .
  qed
  have "prefix (map fst (slice_to ?S n)) (map fst ?S)"
    by (rule map_mono_prefix [OF slice_to_prefix])
  then have "prefix (filter (\<lambda>r. boosted_score ar ?prio r = k) (map fst (slice_to ?S n)))
                    (filter (\<lambda>r. boosted_score ar ?prio r = k) (map fst ?S))"
    by (rule filter_mono_prefix)
  then have p: "prefix (filter (\<lambda>r. boosted_score ar ?prio r = k) (filter_and_rank_results ar thr results it uid n))
               (filter (\<lambda>r. boosted_score ar ?prio r = k) ?K)"
    by (simp only: all filter_and_rank_eq)
  show ?thesis
  proof (cases "thr \<le> k")
    case True
    have "filter (\<lambda>r. boosted_score ar ?prio r = k) ?K
        = filter (\<lambda>r. boosted_score ar ?prio r = k \<and> \<not> access_denied uid r) results"
      using True by (auto simp: keeps_def intro: filter_cong)
    with p show ?thesis by simp
  next
    case False
    have "filter (\<lambda>r. boosted_score ar ?prio r = k) ?K = []"
      using False by (auto simp: keeps_def filter_empty_conv)
    with p show ?thesis by simp
  qed
qed

lemma filter_and_rank_length:
  "int (length (filter_and_rank_results ar thr results it uid (int limit))) \<le> int limit"
  by (simp add: filter_and_rank_eq slice_to_def)

lemma filter_and_rank_kept:
  "r \<in> set (filter_and_rank_results ar thr results it uid n) \<Longrightarrow>
     r \<in> set results \<and> \<not> access_denied uid r \<and> thr \<le> boosted_score ar (DOCUMENT_TYPE_PRIORITIES it) r"
  using filter_and_rank_subset [of ar thr results it uid n] by (auto simp: keeps_def)

lemma format_loop_eq: "format_loop rs acc = acc @ map format_one rs"
  by (induction rs arbitrary: acc) simp_all

lemma format_retrieved_documents_eq: "format_retrieved_documents rs = map format_one rs"
  by (simp add: format_retrieved_documents_def format_loop_eq)

lemma similarity_score_format_one: "similarity_score (format_one r) = Some (get_similarity r)"
  by (simp add: format_one_def Let_def)

subsection \<open>Claims about the retrieval scorer\<close>

text \<open>
  Claim C1. A result whose metadata \<^verbatim>\<open>user_id\<close> differs from the requesting user's id and
  whose metadata \<^verbatim>\<open>visibility\<close> is not \<^verbatim>\<open>"public"\<close> is never in the output of
  \<^verbatim>\<open>_filter_and_rank_results\<close>, whatever the results, the intent, the threshold and the limit.
\<close>

theorem access_filter_absolute:
  "m_user_id (h_metadata r) \<noteq> Some uid \<Longrightarrow> m_visibility (h_metadata r) \<noteq> Some ''public'' \<Longrightarrow>
     r \<notin> set (filter_and_rank_results ar thr results it uid n)"
  using filter_and_rank_subset [of ar thr results it uid n]
  by (auto simp: keeps_def access_denied_def)

theorem access_filter_absolute_witness:
  "m_user_id (h_metadata hit_other_private) \<noteq> Some 1
   \<and> m_visibility (h_metadata hit_other_private) \<noteq> Some ''public''
   \<and> hit_other_private \<notin> set (filter_and_rank_results double_arith SIMILARITY_THRESHOLD
         [hit_other_private, hit_own_notes, hit_public_scheme] DOUBT_CLARIFICATION 1 8)"
proof -
  have u: "m_user_id (h_metadata hit_other_private) \<noteq> Some 1"
    by (simp add: hit_other_private_def)
  have v: "m_visibility (h_metadata hit_other_private) \<noteq> Some ''public''"
    by (simp add: hit_other_private_def)
  show ?thesis
    using u v access_filter_absolute [OF u v] by simp
qed

text \<open>
  Claim C2. For a result that passes the access check, the score is the floating-point sum
  of the similarity (0.0 when the result has none) and the boost, the floating-point
  product of \<open>L - i\<close> and 0.1, when the document type of the result (\<^verbatim>\<open>"other"\<close> when it has
  none) is at 0-based position \<open>i\<close> of the intent's priority list of length \<open>L\<close>; it is the
  similarity alone when the type is not in the list. The result is appended to
  \<open>scored_results\<close>, with that score, if and only if the boosted score is at least the
  threshold, which is compared after the boost; the default threshold is 0.7.
\<close>

theorem boosted_score_threshold:
  "(let prio = DOCUMENT_TYPE_PRIORITIES it;
        sim = (case h_similarity r of None \<Rightarrow> 0 | Some x \<Rightarrow> x);
        doc_type = (case m_document_type (h_metadata r) of None \<Rightarrow> ''other'' | Some t \<Rightarrow> t)
    in (\<forall>i. i < length prio \<and> prio ! i = doc_type \<longrightarrow>
          boosted_score ar prio r = fadd ar sim (fmul ar (real_of_int (int (length prio) - int i)) 0.1))
     \<and> (doc_type \<notin> set prio \<longrightarrow> boosted_score ar prio r = sim)
     \<and> (r \<in> set results \<and> \<not> access_denied uid r \<longrightarrow>
          ((r, s) \<in> set (score_loop ar thr prio uid results [])
             \<longleftrightarrow> s = boosted_score ar prio r \<and> thr \<le> s)))
   \<and> SIMILARITY_THRESHOLD = 7 / 10"
proof -
  let ?prio = "DOCUMENT_TYPE_PRIORITIES it"
  have sim: "(case h_similarity r of None \<Rightarrow> 0 | Some x \<Rightarrow> x) = get_similarity r"
    by (simp add: get_similarity_def)
  have dt: "(case m_document_type (h_metadata r) of None \<Rightarrow> ''other'' | Some t \<Rightarrow> t)
      = get_document_type (h_metadata r)"
    by (simp add: get_document_type_def)
  have a: "boosted_score ar ?prio r
      = fadd ar (get_similarity r) (fmul ar (real_of_int (int (length ?prio) - int i)) 0.1)"
    if "i < length ?prio \<and> ?prio ! i = get_document_type (h_metadata r)" for i
    using that boosted_score_at [OF distinct_priorities] by blast
  have b: "get_document_type (h_metadata r) \<notin> set ?prio \<longrightarrow> boosted_score ar ?prio r = get_similarity r"
    using boosted_score_absent by blast
  have c: "(r, s) \<in> set (score_loop ar thr ?prio uid results [])
        \<longleftrightarrow> s = boosted_score ar ?prio r \<and> thr \<le> s"
    if "r \<in> set results \<and> \<not> access_denied uid r"
    using that by (auto simp: score_loop_eq keeps_def)
  have d: "SIMILARITY_THRESHOLD = 7 / 10" by (simp add: SIMILARITY_THRESHOLD_def)
  from a b c d show ?thesis
    unfolding Let_def sim dt by blast
qed

theorem boosted_score_threshold_witness:
  "0 < length (DOCUMENT_TYPE_PRIORITIES ANSWER_GENERATION)
   \<and> DOCUMENT_TYPE_PRIORITIES ANSWER_GENERATION ! 0 = ''marking_scheme''
   \<and> boosted_score double_arith (DOCUMENT_TYPE_PRIORITIES ANSWER_GENERATION) hit_scheme_low
       = 0.7000000000000001
   \<and> hit_scheme_low \<in> set [hit_scheme_low] \<and> \<not> access_denied 1 hit_scheme_low
   \<and> (hit_scheme_low, 0.7000000000000001) \<in> set (score_loop double_arith SIMILARITY_THRESHOLD
         (DOCUMENT_TYPE_PRIORITIES ANSWER_GENERATION) 1 [hit_scheme_low] [])
   \<and> ''marking_scheme'' \<notin> set (DOCUMENT_TYPE_PRIORITIES QUESTION_GENERATION)
   \<and> boosted_score double_arith (DOCUMENT_TYPE_PRIORITIES QUESTION_GENERATION) hit_scheme_low = 0.4"
proof -
  note t = boosted_score_threshold [of ANSWER_GENERATION hit_scheme_low double_arith
      "[hit_scheme_low]" 1 "0.7000000000000001" SIMILARITY_THRESHOLD, unfolded Let_def]
  note u = boosted_score_threshold [of QUESTION_GENERATION hit_scheme_low double_arith
      "[]" 1 0 0, unfolded Let_def]
  have sim: "(case h_similarity hit_scheme_low of None \<Rightarrow> 0 | Some x \<Rightarrow> x) = 0.4"
    by (simp add: hit_scheme_low_def)
  have dt: "(case m_document_type (h_metadata hit_scheme_low) of None \<Rightarrow> ''other'' | Some t \<Rightarrow> t)
      = ''marking_scheme''"
    by (simp add: hit_scheme_low_def)
  have len: "0 < length (DOCUMENT_TYPE_PRIORITIES ANSWER_GENERATION)" by simp
  have pos: "DOCUMENT_TYPE_PRIORITIES ANSWER_GENERATION ! 0 = ''marking_scheme''" by simp
  from t len pos dt sim
  have "boosted_score double_arith (DOCUMENT_TYPE_PRIORITIES ANSWER_GENERATION) hit_scheme_low
      = fadd double_arith 0.4
          (fmul double_arith (real_of_int (int (length (DOCUMENT_TYPE_PRIORITIES ANSWER_GENERATION)) - int 0)) 0.1)"
    by metis
  then have b: "boosted_score double_arith (DOCUMENT_TYPE_PRIORITIES ANSWER_GENERATION) hit_scheme_low
      = 0.7000000000000001"
    by (simp add: double_arith_def double_add_def double_mul_def)
  have acc: "hit_scheme_low \<in> set [hit_scheme_low] \<and> \<not> access_denied 1 hit_scheme_low"
    by (simp add: hit_scheme_low_def access_denied_def)
  have thr: "SIMILARITY_THRESHOLD \<le> 0.7000000000000001" by (simp add: SIMILARITY_THRESHOLD_def)
  from t acc have "(hit_scheme_low, 0.7000000000000001) \<in> set (score_loop double_arith SIMILARITY_THRESHOLD
         (DOCUMENT_TYPE_PRIORITIES ANSWER_GENERATION) 1 [hit_scheme_low] [])
      \<longleftrightarrow> 0.7000000000000001 = boosted_score double_arith (DOCUMENT_TYPE_PRIORITIES ANSWER_GENERATION) hit_scheme_low
          \<and> SIMILARITY_THRESHOLD \<le> 0.7000000000000001"
    by blast
  with thr b have s: "(hit_scheme_low, 0.7000000000000001) \<in> set (score_loop double_arith SIMILARITY_THRESHOLD
         (DOCUMENT_TYPE_PRIORITIES ANSWER_GENERATION) 1 [hit_scheme_low] [])"
    by simp
  have absent: "''marking_scheme'' \<notin> set (DOCUMENT_TYPE_PRIORITIES QUESTION_GENERATION)"
    by simp
  from u absent dt sim
  have n: "boosted_score double_arith (DOCUMENT_TYPE_PRIORITIES QUESTION_GENERATION) hit_scheme_low = 0.4"
    by metis
  from len pos b acc s absent n show ?thesis by blast
qed

text \<open>
  Claim C3. For every list of results, every intent and every limit (a count of results),
  the output has at most \<open>limit\<close> elements and is ordered by boosted score, descending; the
  results of one score \<open>k\<close> appear in the output in their original search order: they are an
  initial segment of the accessible results of score \<open>k\<close>. The operation is a function of
  its inputs, so identical inputs give identical output.
\<close>

theorem ranked_capped_sorted_stable:
  "int (length (filter_and_rank_results ar thr results it uid (int limit))) \<le> int limit
   \<and> sorted_wrt (\<ge>) (map (boosted_score ar (DOCUMENT_TYPE_PRIORITIES it))
        (filter_and_rank_results ar thr results it uid (int limit)))
   \<and> prefix (filter (\<lambda>r. boosted_score ar (DOCUMENT_TYPE_PRIORITIES it) r = k)
               (filter_and_rank_results ar thr results it uid (int limit)))
            (filter (\<lambda>r. boosted_score ar (DOCUMENT_TYPE_PRIORITIES it) r = k \<and> \<not> access_denied uid r)
               results)"
  using filter_and_rank_length [of ar thr results it uid limit]
    filter_and_rank_sorted [of ar it thr results uid "int limit"]
    filter_and_rank_stable [of ar it k thr results uid "int limit"]
  by blast

text \<open>
  Two results that tie in exact arithmetic, 0.7 + 0.2 and 0.8 + 0.1, do not tie in
  floating point: the second has the higher score and comes first. Two results of the
  same score keep their search order, and the limit cuts the list.
\<close>

theorem ranked_capped_sorted_stable_witness:
  "filter_and_rank_results double_arith SIMILARITY_THRESHOLD
       [hit_notes_first, hit_scheme_second] DOUBT_CLARIFICATION 1 (int 8)
     = [hit_scheme_second, hit_notes_first]
   \<and> filter_and_rank_results double_arith SIMILARITY_THRESHOLD
       [hit_low_notes, hit_own_notes, hit_public_scheme, hit_other_private, hit_scheme_second]
       QUESTION_GENERATION 1 (int 2)
     = [hit_own_notes, hit_public_scheme]
   \<and> int (length (filter_and_rank_results double_arith SIMILARITY_THRESHOLD
       [hit_low_notes, hit_own_notes, hit_public_scheme, hit_other_private, hit_scheme_second]
       QUESTION_GENERATION 1 (int 2))) \<le> int 2"
proof -
  note t = ranked_capped_sorted_stable [of double_arith SIMILARITY_THRESHOLD
      "[hit_low_notes, hit_own_notes, hit_public_scheme, hit_other_private, hit_scheme_second]"
      QUESTION_GENERATION 1 2 0]
  have a: "filter_and_rank_results double_arith SIMILARITY_THRESHOLD
       [hit_notes_first, hit_scheme_second] DOUBT_CLARIFICATION 1 (int 8)
     = [hit_scheme_second, hit_notes_first]"
    by (simp add: rank_defs hit_defs SIMILARITY_THRESHOLD_def)
  have b: "filter_and_rank_results double_arith SIMILARITY_THRESHOLD
       [hit_low_notes, hit_own_notes, hit_public_scheme, hit_other_private, hit_scheme_second]
       QUESTION_GENERATION 1 (int 2)
     = [hit_own_notes, hit_public_scheme]"
    by (simp add: rank_defs hit_defs SIMILARITY_THRESHOLD_def)
  from t a b show ?thesis by blast
qed

text \<open>
  Claim C4. Every document formatted from the ranked results comes from one of the search
  results, one that passed the access check and whose boosted score reached the threshold,
  and reports as \<^verbatim>\<open>similarity_score\<close> the similarity of that search result (0.0 when the
  result has none), not its boosted score; the other fields are the text and the metadata
  of that result.
\<close>

theorem reported_similarity_is_original:
  "(let hits = filter_and_rank_results ar thr results it uid n;
        docs = format_retrieved_documents hits
    in length docs = length hits
     \<and> (\<forall>k<length hits.
          hits ! k \<in> set results
        \<and> \<not> access_denied uid (hits ! k)
        \<and> thr \<le> boosted_score ar (DOCUMENT_TYPE_PRIORITIES it) (hits ! k)
        \<and> similarity_score (docs ! k) = Some (case h_similarity (hits ! k) of None \<Rightarrow> 0 | Some x \<Rightarrow> x)
        \<and> chunk_text (docs ! k) = (case h_document (hits ! k) of None \<Rightarrow> [] | Some t \<Rightarrow> t)
        \<and> metadata (docs ! k) = h_metadata (hits ! k)))"
proof -
  let ?hits = "filter_and_rank_results ar thr results it uid n"
  have "?hits ! k \<in> set results \<and> \<not> access_denied uid (?hits ! k)
      \<and> thr \<le> boosted_score ar (DOCUMENT_TYPE_PRIORITIES it) (?hits ! k)"
    if "k < length ?hits" for k
    using that filter_and_rank_kept [of "?hits ! k" ar thr results it uid n] nth_mem by blast
  then show ?thesis
    by (simp add: Let_def format_retrieved_documents_eq format_one_def get_similarity_def)
qed

text \<open>A result ranked with the boosted score 1.1 is reported with its similarity 0.9.\<close>

theorem reported_similarity_is_original_witness:
  "0 < length (filter_and_rank_results double_arith SIMILARITY_THRESHOLD [hit_own_notes] DOUBT_CLARIFICATION 1 8)
   \<and> filter_and_rank_results double_arith SIMILARITY_THRESHOLD [hit_own_notes] DOUBT_CLARIFICATION 1 8 ! 0
       = hit_own_notes
   \<and> boosted_score double_arith (DOCUMENT_TYPE_PRIORITIES DOUBT_CLARIFICATION) hit_own_notes = 1.1
   \<and> similarity_score (format_retrieved_documents
        (filter_and_rank_results double_arith SIMILARITY_THRESHOLD [hit_own_notes] DOUBT_CLARIFICATION 1 8) ! 0)
       = Some 0.9"
proof -
  let ?hits = "filter_and_rank_results double_arith SIMILARITY_THRESHOLD [hit_own_notes] DOUBT_CLARIFICATION 1 8"
  note t = reported_similarity_is_original [of double_arith SIMILARITY_THRESHOLD "[hit_own_notes]"
      DOUBT_CLARIFICATION 1 8, unfolded Let_def]
  have h: "?hits = [hit_own_notes]"
    by (simp add: rank_defs hit_defs SIMILARITY_THRESHOLD_def)
  have l: "0 < length ?hits" by (simp add: h)
  have z: "?hits ! 0 = hit_own_notes" by (simp add: h)
  from t l have "similarity_score (format_retrieved_documents ?hits ! 0)
      = Some (case h_similarity (?hits ! 0) of None \<Rightarrow> 0 | Some x \<Rightarrow> x)"
    by blast
  then have s: "similarity_score (format_retrieved_documents ?hits ! 0) = Some 0.9"
    unfolding z by (simp add: hit_own_notes_def)
  have b: "boosted_score double_arith (DOCUMENT_TYPE_PRIORITIES DOUBT_CLARIFICATION) hit_own_notes = 1.1"
    by (simp add: rank_defs hit_defs)
  from l z b s show ?thesis by blast
qed

section \<open>Properties of the doubt resolver\<close>

lemma sum_list_ones: "sum_list (map (\<lambda>x. 1::nat) xs) = length xs"
  by (induction xs) simp_all

lemma filter_high_similarity:
  "filter (\<lambda>doc. (case similarity_score doc of None \<Rightarrow> 0 | Some s \<Rightarrow> s) \<ge> (0.7::real)) docs
     = filter high_similarity docs"
  by (rule filter_cong) (auto simp: high_similarity_def split: option.split)

lemma check_relevance_iff:
  "check_relevance docs \<longleftrightarrow> 2 \<le> length (filter high_similarity docs)"
proof (cases "docs = []")
  case True
  then show ?thesis by (simp add: check_relevance_def)
next
  case False
  then show ?thesis
    by (simp only: check_relevance_def Let_def sum_list_ones filter_high_similarity if_False)
qed

lemma doubt_state_count_high:
  "length (filter high_similarity (retrieved_documents (doubt_state 0.7))) = 2"
  by (simp add: doubt_state_def high_similarity_def similarity_score_format_one get_similarity_def hit_defs)

lemma doubt_state_count_low:
  "length (filter high_similarity (retrieved_documents (doubt_state 0.69))) = 1"
  by (simp add: doubt_state_def high_similarity_def similarity_score_format_one get_similarity_def hit_defs)

text \<open>
  Claim C10. The doubt resolver answers from the notes, with the notes prompt and the
  context, if and only if at least two of the retrieved documents have a
  \<^verbatim>\<open>similarity_score\<close> of at least 0.7; it then marks the response with the source
  \<^verbatim>\<open>notes\<close>. Otherwise it asks the model with the general prompt, which does not contain the
  context, and marks the response with the source \<^verbatim>\<open>general_knowledge\<close> and
  \<^verbatim>\<open>has_relevant_notes = False\<close>, whatever the context string is.
\<close>

theorem doubt_path_by_relevant_count:
  "(2 \<le> length (filter high_similarity (retrieved_documents st)) \<longrightarrow>
      resolve rs st =
        (case llm_generate rs (DOUBT_RESOLVER_NOTES_PROMPT rs (query st) (context_str st))
                (DOUBT_RESOLVER_SYSTEM rs) 0.7 1500 of
           Inl e \<Rightarrow> Inl (PyError ''WorkflowNodeException''
                          (workflow_node_text rs ''doubt_resolver'' (exn_text e)))
         | Inr answer \<Rightarrow>
             Inr (st\<lparr> final_response := Some (''## Answer (Based on Your Notes)'' @ [CHR 0x0A, CHR 0x0A]
                                                @ strip answer @ notes_footer),
                       task_data := (task_data st)\<lparr> source_type := Some ''notes'',
                                                     has_relevant_notes := Some True \<rparr>,
                       nodes_visited := nodes_visited st @ [''doubt_resolver''] \<rparr>)))
   \<and> (\<not> 2 \<le> length (filter high_similarity (retrieved_documents st)) \<longrightarrow>
      resolve rs st =
        (case llm_generate rs (DOUBT_RESOLVER_GENERAL_PROMPT rs (query st))
                (DOUBT_RESOLVER_GENERAL_SYSTEM rs) 0.8 1500 of
           Inl e \<Rightarrow> Inl (PyError ''WorkflowNodeException''
                          (workflow_node_text rs ''doubt_resolver'' (exn_text e)))
         | Inr answer \<Rightarrow>
             Inr (st\<lparr> final_response := Some (''## Answer'' @ [CHR 0x0A, CHR 0x0A]
                                                @ strip answer @ general_footer),
                       task_data := (task_data st)\<lparr> source_type := Some ''general_knowledge'',
                                                     has_relevant_notes := Some False \<rparr>,
                       nodes_visited := nodes_visited st @ [''doubt_resolver''] \<rparr>)))"
  by (simp add: resolve_def resolve_try_def check_relevance_iff answer_from_notes_def
      answer_from_general_knowledge_def format_response_def Let_def split: sum.split)

theorem doubt_path_by_relevant_count_witness:
  "2 \<le> length (filter high_similarity (retrieved_documents (doubt_state 0.7)))
   \<and> resolve sample_resolver (doubt_state 0.7) =
       Inr ((doubt_state 0.7)
         \<lparr> final_response := Some (''## Answer (Based on Your Notes)'' @ [CHR 0x0A, CHR 0x0A]
                                   @ ''notes: What is recursion?'' @ notes_footer),
           task_data := \<lparr> source_type = Some ''notes'', has_relevant_notes = Some True \<rparr>,
           nodes_visited := [''doubt_resolver''] \<rparr>)
   \<and> \<not> 2 \<le> length (filter high_similarity (retrieved_documents (doubt_state 0.69)))
   \<and> context_str (doubt_state 0.69) \<noteq> []
   \<and> resolve sample_resolver (doubt_state 0.69) =
       Inr ((doubt_state 0.69)
         \<lparr> final_response := Some (''## Answer'' @ [CHR 0x0A, CHR 0x0A]
                                   @ ''general: What is recursion?'' @ general_footer),
           task_data := \<lparr> source_type = Some ''general_knowledge'', has_relevant_notes = Some False \<rparr>,
           nodes_visited := [''doubt_resolver''] \<rparr>)"
proof -
  have hi: "2 \<le> length (filter high_similarity (retrieved_documents (doubt_state 0.7)))"
    unfolding doubt_state_count_high by simp
  have lo: "\<not> 2 \<le> length (filter high_similarity (retrieved_documents (doubt_state 0.69)))"
    unfolding doubt_state_count_low by simp
  have q: "query (doubt_state x) = ''What is recursion?''" for x
    by (simp add: doubt_state_def sample_state_def)
  have nv: "nodes_visited (doubt_state x) = []" for x
    by (simp add: doubt_state_def sample_state_def)
  have td: "task_data (doubt_state x) = \<lparr> source_type = None, has_relevant_notes = None \<rparr>" for x
    by (simp add: doubt_state_def sample_state_def)
  have s1: "strip ''notes: What is recursion?'' = ''notes: What is recursion?''"
    by (simp add: strip_def is_space_def)
  have s2: "strip ''general: What is recursion?'' = ''general: What is recursion?''"
    by (simp add: strip_def is_space_def)
  from doubt_path_by_relevant_count [of "doubt_state 0.7" sample_resolver] hi
  have a: "resolve sample_resolver (doubt_state 0.7) =
       Inr ((doubt_state 0.7)
         \<lparr> final_response := Some (''## Answer (Based on Your Notes)'' @ [CHR 0x0A, CHR 0x0A]
                                   @ ''notes: What is recursion?'' @ notes_footer),
           task_data := \<lparr> source_type = Some ''notes'', has_relevant_notes = Some True \<rparr>,
           nodes_visited := [''doubt_resolver''] \<rparr>)"
    by (simp add: sample_resolver_def echo_llm_def notes_template_def q nv td s1)
  from doubt_path_by_relevant_count [of "doubt_state 0.69" sample_resolver] lo
  have b: "resolve sample_resolver (doubt_state 0.69) =
       Inr ((doubt_state 0.69)
         \<lparr> final_response := Some (''## Answer'' @ [CHR 0x0A, CHR 0x0A]
                                   @ ''general: What is recursion?'' @ general_footer),
           task_data := \<lparr> source_type = Some ''general_knowledge'', has_relevant_notes = Some False \<rparr>,
           nodes_visited := [''doubt_resolver''] \<rparr>)"
    by (simp add: sample_resolver_def echo_llm_def general_template_def q nv td s2)
  have c: "context_str (doubt_state 0.69) \<noteq> []" by (simp add: doubt_state_def)
  from hi a lo c b show ?thesis by blast
qed

section \<open>Properties of retrieval and of the workflow\<close>

lemma retrieve_total: "\<exists>s'. retrieve rt st = Inr s'"
  by (simp add: retrieve_def split: sum.split)

lemma retrieve_trace:
  "retrieve rt st = Inr s' \<Longrightarrow> nodes_visited s' = nodes_visited st @ [''document_retriever'']"
  by (auto simp: retrieve_def retrieve_try_def Let_def split: sum.splits)

lemma retrieve_intent: "retrieve rt st = Inr s' \<Longrightarrow> intent s' = intent st"
  by (auto simp: retrieve_def retrieve_try_def Let_def split: sum.splits)

lemma retrieve_search_fails:
  "vector_search rt (enhance_query (query st) (intent_or_default st))
      (RETRIEVAL_COUNTS (intent_or_default st) * 2) = Inl e
   \<Longrightarrow> retrieve rt st = Inr (retrieval_failed st)"
  by (simp add: retrieve_def retrieve_try_def intent_or_default_def retrieval_failed_def Let_def)

lemma ainvoke_answer_path:
  assumes "classify_intent_node p st0 = Inr s1"
    and "route_after_intent p s1 = Inr ''retrieve_documents''"
    and "retrieve (retrieval p) s1 = Inr s2"
    and "route_after_retrieval p s2 = Inr key"
    and "task_node p key = Some task"
  shows "ainvoke p st0 = task s2"
  using assms by (simp add: ainvoke_def after_intent_def after_retrieval_def retrieve_documents_node_def)

lemma result_trace_success:
  assumes "create_initial_state p uid q cid = Inr st0"
    and "ainvoke p (st0\<lparr> status := Some IN_PROGRESS \<rparr>) = Inr fin"
  shows "result_trace (process_query p t0 t1 uid q cid) = Some (nodes_visited fin)"
  using assms by (simp add: result_trace_def process_query_def process_query_try_def build_response_def)

lemma result_intent_success:
  assumes "create_initial_state p uid q cid = Inr st0"
    and "ainvoke p (st0\<lparr> status := Some IN_PROGRESS \<rparr>) = Inr fin"
    and "intent fin = Some i"
  shows "result_intent (process_query p t0 t1 uid q cid) = Some (intent_value i)"
  using assms by (simp add: result_intent_def process_query_def process_query_try_def build_response_def)

lemma process_query_failure:
  assumes "process_query_try p t0 t1 uid q cid = Inl e"
  shows "process_query p t0 t1 uid q cid =
     Inr (Failure \<lparr> f_error = exn_text e, f_error_type = exn_class e, f_processing_time = t1 - t0,
                     f_user_id = uid, f_query = q \<rparr>)"
  using assms by (simp add: process_query_def)

lemma process_query_try_ainvoke_fails:
  assumes "create_initial_state p uid q cid = Inr st0"
    and "ainvoke p (st0\<lparr> status := Some IN_PROGRESS \<rparr>) = Inl e"
  shows "process_query_try p t0 t1 uid q cid = Inl e"
  using assms by (simp add: process_query_try_def)

lemma sample_pipeline_route:
  "route_after_intent (sample_pipeline i search node) s = route_after_intent_spec (intent s)"
  "route_after_retrieval (sample_pipeline i search node) s
     = (case intent s of None \<Rightarrow> Inr ''end'' | Some j \<Rightarrow> route_after_retrieval_spec j)"
  by (simp_all add: sample_pipeline_def spec_route_after_intent_def spec_route_after_retrieval_def)

lemma sample_pipeline_start:
  "create_initial_state (sample_pipeline i search node) uid q cid = Inr (sample_state uid q cid)"
  "classify_intent_node (sample_pipeline i search node) s = Inr (classified i s)"
  "generate_answer_node (sample_pipeline i search node) = node"
  "vector_search (retrieval (sample_pipeline i search node)) = search"
  "resolver (sample_pipeline i search node) = sample_resolver"
  by (simp_all add: sample_pipeline_def sample_initial_state_def sample_classifier_def classified_def)

lemma classified_fields:
  "intent (classified i s) = Some i"
  "nodes_visited (classified i s) = nodes_visited s @ [''classify_intent'']"
  "query (classified i s) = query s"
  by (simp_all add: classified_def)

text \<open>Routing to the end without raising gives a success response.\<close>

lemma end_route_is_success:
  assumes "create_initial_state p uid q cid = Inr st0"
    and "classify_intent_node p (st0\<lparr> status := Some IN_PROGRESS \<rparr>) = Inr s1"
    and "route_after_intent p s1 = Inr ''retrieve_documents''"
    and "retrieve_documents_node p s1 = Inr s2"
    and "route_after_retrieval p s2 = Inr ''end''"
  shows "result_trace (process_query p t0 t1 uid q cid) = Some (nodes_visited s2)
    \<and> result_error_type (process_query p t0 t1 uid q cid) = None"
  using assms
  by (simp add: result_trace_def result_error_type_def process_query_def process_query_try_def
      ainvoke_def after_intent_def after_retrieval_def task_node_def build_response_def)

lemma spec_pipeline_fields:
  "create_initial_state (spec_pipeline classify generate ev qs rt rs) = create_initial_state_spec"
  "classify_intent_node (spec_pipeline classify generate ev qs rt rs) = classify_intent_node_spec classify"
  "generate_answer_node (spec_pipeline classify generate ev qs rt rs) = generate_answer_node_spec generate"
  "route_after_intent (spec_pipeline classify generate ev qs rt rs) = spec_route_after_intent"
  "route_after_retrieval (spec_pipeline classify generate ev qs rt rs) = spec_route_after_retrieval"
  "retrieval (spec_pipeline classify generate ev qs rt rs) = rt"
  by (simp_all add: spec_pipeline_def)

text \<open>The run of the workflow up to the answer generation, for a query classified as such.\<close>

lemma spec_answer_run:
  assumes "classify q = Inr ANSWER_GENERATION"
  shows "\<exists>s2. ainvoke (spec_pipeline classify generate ev qs rt rs)
                 ((initial_state_spec uid q cid)\<lparr> status := Some IN_PROGRESS \<rparr>)
               = generate_answer_node_spec generate s2
             \<and> nodes_visited s2 = [''classify_intent'', ''document_retriever'']
             \<and> intent s2 = Some ANSWER_GENERATION"
proof -
  let ?p = "spec_pipeline classify generate ev qs rt rs"
  let ?init = "(initial_state_spec uid q cid)\<lparr> status := Some IN_PROGRESS \<rparr>"
  let ?cls = "?init\<lparr> intent := Some ANSWER_GENERATION,
                      nodes_visited := nodes_visited ?init @ [''classify_intent''] \<rparr>"
  obtain s2 where r: "retrieve (retrieval ?p) ?cls = Inr s2"
    using retrieve_total by blast
  have i2: "intent s2 = Some ANSWER_GENERATION"
    using retrieve_intent [OF r] by simp
  have n2: "nodes_visited s2 = [''classify_intent'', ''document_retriever'']"
    using retrieve_trace [OF r] by (simp add: initial_state_spec_def)
  have 1: "classify_intent_node ?p ?init = Inr ?cls"
    using assms by (simp add: spec_pipeline_fields classify_intent_node_spec_def initial_state_spec_def)
  have 2: "route_after_intent ?p ?cls = Inr ''retrieve_documents''"
    by (simp add: spec_pipeline_fields spec_route_after_intent_def route_after_intent_spec_def)
  have 3: "route_after_retrieval ?p s2 = Inr ''generate_answer''"
    using i2 by (simp add: spec_pipeline_fields spec_route_after_retrieval_def route_after_retrieval_spec_def)
  have 4: "task_node ?p ''generate_answer'' = Some (generate_answer_node_spec generate)"
    by (simp add: task_node_def spec_pipeline_fields)
  have "ainvoke ?p ?init = generate_answer_node_spec generate s2"
    by (rule ainvoke_answer_path [OF 1 2 r 3 4])
  with n2 i2 show ?thesis by blast
qed

lemma spec_answer_trace:
  assumes "classify q = Inr ANSWER_GENERATION"
    and "process_query (spec_pipeline classify generate ev qs rt rs) t0 t1 uid q cid = Inr (Success resp)"
  shows "r_nodes_visited resp = [''classify_intent'', ''document_retriever'', ''generate_answer'']
    \<and> r_intent resp = ''answer_generation''"
proof -
  let ?p = "spec_pipeline classify generate ev qs rt rs"
  let ?init = "(initial_state_spec uid q cid)\<lparr> status := Some IN_PROGRESS \<rparr>"
  from spec_answer_run [of classify q, OF assms(1)] obtain s2 where
    a: "ainvoke ?p ?init = generate_answer_node_spec generate s2"
    and n2: "nodes_visited s2 = [''classify_intent'', ''document_retriever'']"
    and i2: "intent s2 = Some ANSWER_GENERATION"
    by blast
  have c: "create_initial_state ?p uid q cid = Inr (initial_state_spec uid q cid)"
    by (simp add: spec_pipeline_fields create_initial_state_spec_def)
  show ?thesis
  proof (cases "generate (query s2) (context_str s2)")
    case (Inl e)
    then have "ainvoke ?p ?init = Inl e"
      using a by (simp add: generate_answer_node_spec_def)
    then have "process_query_try ?p t0 t1 uid q cid = Inl e"
      by (rule process_query_try_ainvoke_fails [OF c])
    then show ?thesis using assms(2) by (simp add: process_query_def)
  next
    case (Inr answer)
    let ?fin = "s2\<lparr> generated_answer := Some answer,
                      nodes_visited := nodes_visited s2 @ [''generate_answer''] \<rparr>"
    have f: "ainvoke ?p ?init = Inr ?fin"
      using a Inr by (simp add: generate_answer_node_spec_def)
    have "result_trace (process_query ?p t0 t1 uid q cid) = Some (nodes_visited ?fin)"
      by (rule result_trace_success [OF c f])
    moreover have "result_intent (process_query ?p t0 t1 uid q cid) = Some (intent_value ANSWER_GENERATION)"
      by (rule result_intent_success [OF c f]) (simp add: i2)
    ultimately show ?thesis
      using assms(2) n2 by (simp add: result_trace_def result_intent_def intent_value_def)
  qed
qed

text \<open>The sample workflow completes an answer-generation query.\<close>

lemma answer_pipeline_success:
  "\<exists>resp. process_query answer_pipeline t0 t1 uid q cid = Inr (Success resp)"
proof -
  let ?p = "spec_pipeline classify_answer_generation generate_text
     (sample_task ''evaluate_answer'') (sample_task ''generate_questions'') sample_retrieval sample_resolver"
  let ?init = "(initial_state_spec uid q cid)\<lparr> status := Some IN_PROGRESS \<rparr>"
  have "classify_answer_generation q = Inr ANSWER_GENERATION"
    by (simp add: classify_answer_generation_def)
  from spec_answer_run [of classify_answer_generation q, OF this] obtain s2 where
    a: "ainvoke ?p ?init = generate_answer_node_spec generate_text s2"
    by blast
  have c: "create_initial_state ?p uid q cid = Inr (initial_state_spec uid q cid)"
    by (simp add: spec_pipeline_fields create_initial_state_spec_def)
  from a have "\<exists>fin. ainvoke ?p ?init = Inr fin"
    by (simp add: generate_answer_node_spec_def generate_text_def)
  then show ?thesis
    using c by (auto simp: answer_pipeline_def process_query_def process_query_try_def)
qed

text \<open>
  Claim C5, as stated: the trace of a successful answer-generation query is
  \<^verbatim>\<open>["classify_intent", "retrieve_documents", "generate_answer"]\<close>. The retrieval stage appends
  \<^verbatim>\<open>"document_retriever"\<close> to the trace, so the second entry differs, with the other stages
  as the specification describes them.
\<close>

theorem trace_counterexample:
  "result_intent (process_query answer_pipeline 0 1 1 ''What is recursion?'' None) = Some ''answer_generation''
   \<and> result_trace (process_query answer_pipeline 0 1 1 ''What is recursion?'' None)
       \<noteq> Some [''classify_intent'', ''retrieve_documents'', ''generate_answer'']"
proof -
  obtain resp where s: "process_query answer_pipeline 0 1 1 ''What is recursion?'' None = Inr (Success resp)"
    using answer_pipeline_success by blast
  have c: "classify_answer_generation ''What is recursion?'' = Inr ANSWER_GENERATION"
    by (simp add: classify_answer_generation_def)
  from spec_answer_trace [of classify_answer_generation "''What is recursion?''", OF c s [unfolded answer_pipeline_def]]
  show ?thesis by (simp add: s result_intent_def result_trace_def)
qed

text \<open>
  Claim C5, amended. For every query that is classified as \<^verbatim>\<open>ANSWER_GENERATION\<close> and
  completes the pipeline successfully, the trace in the result equals exactly
  \<^verbatim>\<open>["classify_intent", "document_retriever", "generate_answer"]\<close>, in that order and with no
  other elements.
\<close>

theorem answer_generation_trace:
  assumes "classify q = Inr ANSWER_GENERATION"
    and "process_query (spec_pipeline classify generate evaluate_node questions_node rt rs) t0 t1 uid q cid
           = Inr (Success resp)"
  shows "r_nodes_visited resp = [''classify_intent'', ''document_retriever'', ''generate_answer'']"
  using spec_answer_trace [of classify q, OF assms] by simp

theorem answer_generation_trace_witness:
  "classify_answer_generation ''What is recursion?'' = Inr ANSWER_GENERATION
   \<and> result_trace (process_query answer_pipeline 0 1 1 ''What is recursion?'' None)
       = Some [''classify_intent'', ''document_retriever'', ''generate_answer'']"
proof -
  obtain resp where s: "process_query answer_pipeline 0 1 1 ''What is recursion?'' None = Inr (Success resp)"
    using answer_pipeline_success by blast
  have c: "classify_answer_generation ''What is recursion?'' = Inr ANSWER_GENERATION"
    by (simp add: classify_answer_generation_def)
  from answer_generation_trace [of classify_answer_generation "''What is recursion?''", OF c s [unfolded answer_pipeline_def]] c
  show ?thesis by (simp add: s result_trace_def)
qed

text \<open>
  Claim C6. If the search raises during retrieval, the retrieval node returns normally, with
  an empty list of retrieved documents, an empty context and its name appended to the
  trace, and the workflow goes on to the task node that the router selects, which runs on
  that state.
\<close>

theorem search_failure_continues:
  assumes "vector_search (retrieval p) (enhance_query (query st) (intent_or_default st))
             (RETRIEVAL_COUNTS (intent_or_default st) * 2) = Inl e"
    and "classify_intent_node p st0 = Inr st"
    and "route_after_intent p st = Inr ''retrieve_documents''"
    and "route_after_retrieval p (retrieval_failed st) = Inr key"
    and "task_node p key = Some task"
  shows "retrieve_documents_node p st = Inr (retrieval_failed st)
    \<and> retrieved_documents (retrieval_failed st) = []
    \<and> context_str (retrieval_failed st) = []
    \<and> nodes_visited (retrieval_failed st) = nodes_visited st @ [''document_retriever'']
    \<and> ainvoke p st0 = task (retrieval_failed st)"
proof -
  have r: "retrieve (retrieval p) st = Inr (retrieval_failed st)"
    using assms(1) by (rule retrieve_search_fails)
  have "ainvoke p st0 = task (retrieval_failed st)"
    by (rule ainvoke_answer_path [OF assms(2) assms(3) r assms(4) assms(5)])
  with r show ?thesis
    by (simp add: retrieve_documents_node_def retrieval_failed_def)
qed

theorem search_failure_continues_witness:
  "retrieve_documents_node (sample_pipeline DOUBT_CLARIFICATION failing_search (sample_task ''generate_answer''))
       (classified DOUBT_CLARIFICATION (sample_state 1 ''What is recursion?'' None))
     = Inr (retrieval_failed (classified DOUBT_CLARIFICATION (sample_state 1 ''What is recursion?'' None)))
   \<and> ainvoke (sample_pipeline DOUBT_CLARIFICATION failing_search (sample_task ''generate_answer''))
       (sample_state 1 ''What is recursion?'' None)
     = resolve_doubt_node (sample_pipeline DOUBT_CLARIFICATION failing_search (sample_task ''generate_answer''))
         (retrieval_failed (classified DOUBT_CLARIFICATION (sample_state 1 ''What is recursion?'' None)))
   \<and> nodes_visited (retrieval_failed (classified DOUBT_CLARIFICATION (sample_state 1 ''What is recursion?'' None)))
     = [''classify_intent'', ''document_retriever'']"
proof -
  let ?p = "sample_pipeline DOUBT_CLARIFICATION failing_search (sample_task ''generate_answer'')"
  let ?init = "sample_state 1 ''What is recursion?'' None"
  let ?stc = "classified DOUBT_CLARIFICATION ?init"
  have 1: "vector_search (retrieval ?p) (enhance_query (query ?stc) (intent_or_default ?stc))
             (RETRIEVAL_COUNTS (intent_or_default ?stc) * 2)
           = Inl (PyError ''ConnectionError'' ''vector store unavailable'')"
    by (simp add: sample_pipeline_start failing_search_def)
  have 2: "classify_intent_node ?p ?init = Inr ?stc"
    by (simp add: sample_pipeline_start)
  have 3: "route_after_intent ?p ?stc = Inr ''retrieve_documents''"
    by (simp add: sample_pipeline_route classified_fields route_after_intent_spec_def)
  have 4: "route_after_retrieval ?p (retrieval_failed ?stc) = Inr ''resolve_doubt''"
    by (simp add: sample_pipeline_route retrieval_failed_def classified_def route_after_retrieval_spec_def)
  have 5: "task_node ?p ''resolve_doubt'' = Some (resolve_doubt_node ?p)"
    by (simp add: task_node_def)
  have 6: "nodes_visited ?stc = [''classify_intent'']"
    by (simp add: classified_fields sample_state_def)
  from search_failure_continues [OF 1 2 3 4 5] 6 show ?thesis by simp
qed

text \<open>
  Claim C7. With the routing of the specification, a query classified as
  \<^verbatim>\<open>EXAM_PAPER_GENERATION\<close> ends in a failure response whose error type is
  \<^verbatim>\<open>UnsupportedIntent\<close>: neither a success response, nor the error type of a failed
  classification, nor the error of an unknown routing key.
\<close>

theorem exam_paper_unsupported:
  assumes "create_initial_state p uid q cid = Inr st0"
    and "classify_intent_node p (st0\<lparr> status := Some IN_PROGRESS \<rparr>) = Inr s1"
    and "intent s1 = Some EXAM_PAPER_GENERATION"
    and "route_after_intent p s1 = route_after_intent_spec (intent s1)"
    and "\<And>s. intent s = Some EXAM_PAPER_GENERATION \<Longrightarrow>
            route_after_retrieval p s = route_after_retrieval_spec EXAM_PAPER_GENERATION"
  shows "process_query p t0 t1 uid q cid =
     Inr (Failure \<lparr> f_error = ''exam_paper_generation'', f_error_type = ''UnsupportedIntent'',
                     f_processing_time = t1 - t0, f_user_id = uid, f_query = q \<rparr>)"
proof -
  obtain s2 where r: "retrieve (retrieval p) s1 = Inr s2"
    using retrieve_total by blast
  have "intent s2 = Some EXAM_PAPER_GENERATION"
    using retrieve_intent [OF r] assms(3) by simp
  then have "route_after_retrieval p s2 = Inl (PyError ''UnsupportedIntent'' ''exam_paper_generation'')"
    using assms(5) by (simp add: route_after_retrieval_spec_def intent_value_def)
  moreover have "route_after_intent p s1 = Inr ''retrieve_documents''"
    using assms(3,4) by (simp add: route_after_intent_spec_def)
  ultimately have "ainvoke p (st0\<lparr> status := Some IN_PROGRESS \<rparr>)
      = Inl (PyError ''UnsupportedIntent'' ''exam_paper_generation'')"
    using assms(2) r
    by (simp add: ainvoke_def after_intent_def after_retrieval_def retrieve_documents_node_def)
  then have "process_query_try p t0 t1 uid q cid = Inl (PyError ''UnsupportedIntent'' ''exam_paper_generation'')"
    by (rule process_query_try_ainvoke_fails [OF assms(1)])
  from process_query_failure [OF this] show ?thesis by simp
qed

theorem exam_paper_unsupported_witness:
  "process_query (sample_pipeline EXAM_PAPER_GENERATION no_hits_search (sample_task ''generate_answer''))
       2 5 1 ''Make an exam paper'' None
     = Inr (Failure \<lparr> f_error = ''exam_paper_generation'', f_error_type = ''UnsupportedIntent'',
                      f_processing_time = 3, f_user_id = 1, f_query = ''Make an exam paper'' \<rparr>)"
proof -
  let ?p = "sample_pipeline EXAM_PAPER_GENERATION no_hits_search (sample_task ''generate_answer'')"
  let ?init = "sample_state 1 ''Make an exam paper'' None"
  let ?cls = "classified EXAM_PAPER_GENERATION (?init\<lparr> status := Some IN_PROGRESS \<rparr>)"
  have 1: "create_initial_state ?p 1 ''Make an exam paper'' None = Inr ?init"
    by (simp add: sample_pipeline_start)
  have 2: "classify_intent_node ?p (?init\<lparr> status := Some IN_PROGRESS \<rparr>) = Inr ?cls"
    by (simp add: sample_pipeline_start)
  have 3: "intent ?cls = Some EXAM_PAPER_GENERATION"
    by (simp add: classified_fields)
  have 4: "route_after_intent ?p ?cls = route_after_intent_spec (intent ?cls)"
    by (simp add: sample_pipeline_route)
  have 5: "route_after_retrieval ?p s = route_after_retrieval_spec EXAM_PAPER_GENERATION"
    if "intent s = Some EXAM_PAPER_GENERATION" for s
    using that by (simp add: sample_pipeline_route)
  from exam_paper_unsupported [OF 1 2 3 4 5, of 2 5] show ?thesis by simp
qed

text \<open>
  Claim C8. \<^verbatim>\<open>process_query\<close> never raises. If the creation of the initial state or any stage
  of the workflow raises, it returns the failure response, with the text and class of the
  exception and the time elapsed since the start of \<^verbatim>\<open>process_query\<close>.
\<close>

theorem process_query_never_raises:
  "(\<exists>r. process_query p t0 t1 uid q cid = Inr r)
   \<and> (create_initial_state p uid q cid = Inl e
        \<or> (\<exists>st0. create_initial_state p uid q cid = Inr st0
              \<and> ainvoke p (st0\<lparr> status := Some IN_PROGRESS \<rparr>) = Inl e)
      \<longrightarrow> process_query p t0 t1 uid q cid =
            Inr (Failure \<lparr> f_error = exn_text e, f_error_type = exn_class e,
                           f_processing_time = t1 - t0, f_user_id = uid, f_query = q \<rparr>))"
proof (intro conjI impI)
  show "\<exists>r. process_query p t0 t1 uid q cid = Inr r"
    by (simp add: process_query_def split: sum.split)
next
  assume "create_initial_state p uid q cid = Inl e
        \<or> (\<exists>st0. create_initial_state p uid q cid = Inr st0
              \<and> ainvoke p (st0\<lparr> status := Some IN_PROGRESS \<rparr>) = Inl e)"
  then have "process_query_try p t0 t1 uid q cid = Inl e"
    by (auto simp: process_query_try_def)
  then show "process_query p t0 t1 uid q cid =
            Inr (Failure \<lparr> f_error = exn_text e, f_error_type = exn_class e,
                           f_processing_time = t1 - t0, f_user_id = uid, f_query = q \<rparr>)"
    by (rule process_query_failure)
qed

theorem process_query_never_raises_witness:
  "(\<exists>st0. create_initial_state (sample_pipeline ANSWER_GENERATION no_hits_search failing_task)
              1 ''What is recursion?'' None = Inr st0
         \<and> ainvoke (sample_pipeline ANSWER_GENERATION no_hits_search failing_task)
              (st0\<lparr> status := Some IN_PROGRESS \<rparr>) = Inl (PyError ''GenerationError'' ''model unavailable''))
   \<and> process_query (sample_pipeline ANSWER_GENERATION no_hits_search failing_task) 2 5 1 ''What is recursion?'' None
     = Inr (Failure \<lparr> f_error = ''model unavailable'', f_error_type = ''GenerationError'',
                      f_processing_time = 3, f_user_id = 1, f_query = ''What is recursion?'' \<rparr>)"
proof -
  let ?p = "sample_pipeline ANSWER_GENERATION no_hits_search failing_task"
  let ?init = "sample_state 1 ''What is recursion?'' None"
  let ?cls = "classified ANSWER_GENERATION (?init\<lparr> status := Some IN_PROGRESS \<rparr>)"
  let ?e = "PyError ''GenerationError'' ''model unavailable''"
  obtain s2 where r: "retrieve (retrieval ?p) ?cls = Inr s2"
    using retrieve_total by blast
  have i2: "intent s2 = Some ANSWER_GENERATION"
    using retrieve_intent [OF r] by (simp add: classified_fields)
  have 1: "create_initial_state ?p 1 ''What is recursion?'' None = Inr ?init"
    by (simp add: sample_pipeline_start)
  have 2: "classify_intent_node ?p (?init\<lparr> status := Some IN_PROGRESS \<rparr>) = Inr ?cls"
    by (simp add: sample_pipeline_start)
  have 3: "route_after_intent ?p ?cls = Inr ''retrieve_documents''"
    by (simp add: sample_pipeline_route classified_fields route_after_intent_spec_def)
  have 4: "route_after_retrieval ?p s2 = Inr ''generate_answer''"
    using i2 by (simp add: sample_pipeline_route route_after_retrieval_spec_def)
  have 5: "task_node ?p ''generate_answer'' = Some failing_task"
    by (simp add: task_node_def sample_pipeline_start)
  have "ainvoke ?p (?init\<lparr> status := Some IN_PROGRESS \<rparr>) = failing_task s2"
    by (rule ainvoke_answer_path [OF 2 3 r 4 5])
  then have a: "ainvoke ?p (?init\<lparr> status := Some IN_PROGRESS \<rparr>) = Inl ?e"
    by (simp add: failing_task_def)
  with 1 have ex: "\<exists>st0. create_initial_state ?p 1 ''What is recursion?'' None = Inr st0
         \<and> ainvoke ?p (st0\<lparr> status := Some IN_PROGRESS \<rparr>) = Inl ?e"
    by blast
  from process_query_never_raises [of ?p 2 5 1 "''What is recursion?''" None ?e] ex
  have "process_query ?p 2 5 1 ''What is recursion?'' None
     = Inr (Failure \<lparr> f_error = exn_text ?e, f_error_type = exn_class ?e,
                      f_processing_time = 5 - 2, f_user_id = 1, f_query = ''What is recursion?'' \<rparr>)"
    by blast
  then have "process_query ?p 2 5 1 ''What is recursion?'' None
     = Inr (Failure \<lparr> f_error = ''model unavailable'', f_error_type = ''GenerationError'',
                      f_processing_time = 3, f_user_id = 1, f_query = ''What is recursion?'' \<rparr>)"
    by simp
  with ex show ?thesis by blast
qed

section \<open>Properties of the streaming message list\<close>

lemma rev_take_rev: "rev (take n (rev xs)) = last_n n xs"
  by (simp add: last_n_def rev_take)

lemma history_rows_eq:
  "rev (fetchall tbl cid) = map (\<lambda>m. (msg_role m, msg_content m)) (last_n 10 (conversation tbl cid))"
  by (simp add: fetchall_def select_rows_def conversation_def rev_map rev_take_rev)

lemma stream_messages_eq:
  "stream_messages sn sg tbl cid q c =
     (''system'', if c \<noteq> [] then sn else sg)
     # map (\<lambda>m. (msg_role m, msg_content m)) (history_spec tbl cid q)
     @ [(''user'', if c \<noteq> [] then final_query_with_context c q else q)]"
proof -
  let ?recent = "last_n 10 (conversation tbl cid)"
  let ?proj = "\<lambda>m. (msg_role m, msg_content m)"
  have "?recent \<noteq> [] \<Longrightarrow> snd (last (map ?proj ?recent)) = msg_content (last ?recent)"
    by (simp add: last_map)
  then have "(if map ?proj ?recent \<noteq> [] \<and> snd (last (map ?proj ?recent)) = q
              then butlast (map ?proj ?recent) else map ?proj ?recent)
      = map ?proj (history_spec tbl cid q)"
    by (auto simp: history_spec_def Let_def map_butlast)
  then show ?thesis
    unfolding stream_messages_def history_rows_eq Let_def by simp
qed

lemma length_last_n: "length (last_n n xs) \<le> n"
  by (simp add: last_n_def)

lemma length_history_spec: "length (history_spec tbl cid q) \<le> 10"
  using length_last_n [of 10 "conversation tbl cid"]
  by (auto simp: history_spec_def Let_def)

lemma sorted_conversation: "sorted (map msg_id (conversation tbl cid))"
  by (simp add: conversation_def)

lemma sorted_last_n: "sorted (map f xs) \<Longrightarrow> sorted (map f (last_n n xs))"
  by (simp add: last_n_def drop_map [symmetric] sorted_wrt_drop del: drop_map)

lemma sorted_butlast_map: "sorted (map f xs) \<Longrightarrow> sorted (map f (butlast xs))"
  using sorted_butlast [of "map f xs"] by (simp add: map_butlast)

lemma last_n_nonempty:
  assumes "xs \<noteq> []" and "0 < n"
  shows "last_n n xs \<noteq> []"
proof -
  have "0 < length xs" using assms(1) by simp
  then have "length xs - n < length xs" using assms(2) by arith
  then show ?thesis by (simp add: last_n_def)
qed

lemma last_last_n:
  assumes "xs \<noteq> []" and "0 < n"
  shows "last (last_n n xs) = last xs"
proof -
  have "0 < length xs" using assms(1) by simp
  then have "length xs - n < length xs" using assms(2) by arith
  then show ?thesis by (simp add: last_n_def last_drop)
qed

lemma sorted_history_spec: "sorted (map msg_id (history_spec tbl cid q))"
  using sorted_last_n [OF sorted_conversation, of 10 tbl cid]
  by (auto simp: history_spec_def Let_def intro: sorted_butlast_map)

lemma distinct_conversation:
  "distinct (map msg_id tbl) \<Longrightarrow> distinct (conversation tbl cid)"
  by (simp add: conversation_def distinct_map_filter distinct_map [THEN iffD1])

lemma last_not_in_butlast: "distinct xs \<Longrightarrow> xs \<noteq> [] \<Longrightarrow> last xs \<notin> set (butlast xs)"
proof -
  assume d: "distinct xs" and n: "xs \<noteq> []"
  then have "distinct (butlast xs @ [last xs])" by simp
  then show ?thesis by simp
qed

lemma current_excluded:
  assumes "distinct (map msg_id tbl)" "conversation tbl cid \<noteq> []"
    "msg_content (last (conversation tbl cid)) = q"
  shows "last (conversation tbl cid) \<notin> set (history_spec tbl cid q)"
proof -
  let ?S = "conversation tbl cid"
  let ?recent = "last_n 10 ?S"
  have ne: "?recent \<noteq> []" using assms(2) by (simp add: last_n_nonempty)
  have l: "last ?recent = last ?S" using assms(2) by (simp add: last_last_n)
  have "distinct ?recent"
    using distinct_conversation [OF assms(1)] by (simp add: last_n_def)
  then have "last ?recent \<notin> set (butlast ?recent)" using ne by (rule last_not_in_butlast)
  then show ?thesis using ne l assms(3) by (simp add: history_spec_def Let_def)
qed

lemma sample_conversation:
  "conversation sample_table 7 =
     [\<lparr> msg_id = 1, msg_conversation_id = 7, msg_role = ''user'', msg_content = ''hi'' \<rparr>,
      \<lparr> msg_id = 2, msg_conversation_id = 7, msg_role = ''assistant'', msg_content = ''hello'' \<rparr>,
      \<lparr> msg_id = 3, msg_conversation_id = 7, msg_role = ''user'', msg_content = ''What is recursion?'' \<rparr>]"
  by (simp add: conversation_def sample_table_def)

lemma sample_history:
  "history_spec sample_table 7 ''What is recursion?'' =
     [\<lparr> msg_id = 1, msg_conversation_id = 7, msg_role = ''user'', msg_content = ''hi'' \<rparr>,
      \<lparr> msg_id = 2, msg_conversation_id = 7, msg_role = ''assistant'', msg_content = ''hello'' \<rparr>]"
  by (simp add: history_spec_def sample_conversation last_n_def)

text \<open>
  Claim C9. The message list of a streaming session is the system prompt, the history and
  the current user message. The history has at most ten messages, the last ten of the
  conversation in chronological order; if the content of the newest persisted message is
  the query, that message is left out, so that the row of the current user message is not
  in the history and the message is given once, at the end.
\<close>

theorem stream_history:
  "stream_messages sn sg tbl cid q c =
     (''system'', if c \<noteq> [] then sn else sg)
     # map (\<lambda>m. (msg_role m, msg_content m)) (history_spec tbl cid q)
     @ [(''user'', if c \<noteq> [] then final_query_with_context c q else q)]
   \<and> length (history_spec tbl cid q) \<le> 10
   \<and> sorted (map msg_id (history_spec tbl cid q))
   \<and> (distinct (map msg_id tbl) \<and> conversation tbl cid \<noteq> []
        \<and> msg_content (last (conversation tbl cid)) = q
      \<longrightarrow> last (conversation tbl cid) \<notin> set (history_spec tbl cid q))"
  using stream_messages_eq [of sn sg tbl cid q c] length_history_spec [of tbl cid q]
    sorted_history_spec [of tbl cid q] current_excluded [of tbl cid q]
  by blast

theorem stream_history_witness:
  "distinct (map msg_id sample_table)
   \<and> conversation sample_table 7 \<noteq> []
   \<and> msg_content (last (conversation sample_table 7)) = ''What is recursion?''
   \<and> last (conversation sample_table 7) \<notin> set (history_spec sample_table 7 ''What is recursion?'')
   \<and> stream_messages ''notes system'' ''general system'' sample_table 7 ''What is recursion?'' []
       = [(''system'', ''general system''), (''user'', ''hi''), (''assistant'', ''hello''),
          (''user'', ''What is recursion?'')]"
proof -
  have d: "distinct (map msg_id sample_table)" by (simp add: sample_table_def)
  have n: "conversation sample_table 7 \<noteq> []" by (simp add: sample_conversation)
  have c: "msg_content (last (conversation sample_table 7)) = ''What is recursion?''"
    by (simp add: sample_conversation)
  note t = stream_history [of "''notes system''" "''general system''" sample_table 7 "''What is recursion?''" "[]"]
  from t d n c have "last (conversation sample_table 7) \<notin> set (history_spec sample_table 7 ''What is recursion?'')"
    by blast
  moreover from t have "stream_messages ''notes system'' ''general system'' sample_table 7 ''What is recursion?'' []
       = [(''system'', ''general system''), (''user'', ''hi''), (''assistant'', ''hello''),
          (''user'', ''What is recursion?'')]"
    by (simp add: sample_history)
  ultimately show ?thesis using d n c by blast
qed

end
